theory Spec2Isabelle
  imports Main "HOL-Library.Sublist"
begin

section \<open>JavaScript values used by the client\<close>

text \<open>
  A value of TypeScript type \<open>string | null\<close> is a \<open>string option\<close>, \<open>None\<close> being
  \<open>null\<close> (or \<open>undefined\<close>). The three JavaScript idioms the source applies to such values
  are written out: truthiness (\<open>!!x\<close>, \<open>if (x)\<close>), the fallback \<open>x || d\<close>, and interpolation
  into a template literal, where \<open>null\<close> prints as the four characters \<open>null\<close>.
\<close>

definition truthy :: "string option \<Rightarrow> bool" where
  "truthy x = (case x of None \<Rightarrow> False | Some s \<Rightarrow> s \<noteq> [])"

definition or_else :: "string option \<Rightarrow> string \<Rightarrow> string" where
  "or_else x d = (case x of None \<Rightarrow> d | Some s \<Rightarrow> if s = [] then d else s)"

definition interpolate :: "string option \<Rightarrow> string" where
  "interpolate x = (case x of None \<Rightarrow> ''null'' | Some s \<Rightarrow> s)"

text \<open>
  A thrown value (a rejected promise) is an \<open>Error\<close> object with its message, or \<open>null\<close>
  or \<open>undefined\<close>, or any other value. \<open>instanceof Error\<close> holds of the first only; \<open>??\<close>
  passes over the second as it passes over an absent value.
\<close>

datatype 'x thrown = Error string | Nullish | Thrown 'x

definition error_message :: "'x thrown option \<Rightarrow> string option" where
  "error_message e = (case e of Some (Error m) \<Rightarrow> Some m | _ \<Rightarrow> None)"

section \<open>types.ts\<close>

definition QUERY_KEYS_histories :: "string \<Rightarrow> string list" where
  "QUERY_KEYS_histories userId = [''starter'', ''histories'', userId]"

definition QUERY_KEYS_historiesTotal :: "string list" where
  "QUERY_KEYS_historiesTotal = [''starter'', ''histories'', ''total'']"

definition QUERY_KEYS_user :: "string \<Rightarrow> string list" where
  "QUERY_KEYS_user userId = [''starter'', ''user'', userId]"

text \<open>
  Modelled from the spec: the constants \<open>DEFAULT_STALE_TIME\<close> and \<open>DEFAULT_GC_TIME\<close>, which
  one of the two copies of \<open>useHistories\<close> imports from \<open>types.ts\<close>, are not declared in
  the \<open>types.ts\<close> at hand. The spec names the defaults: a staleness window of 5 minutes and
  a garbage-collection window of 30 minutes. The engine counts in milliseconds.
\<close>

definition DEFAULT_STALE_TIME :: int where
  "DEFAULT_STALE_TIME = 5 * 60 * 1000"

definition DEFAULT_GC_TIME :: int where
  "DEFAULT_GC_TIME = 30 * 60 * 1000"

section \<open>utils/starter-helpers.ts\<close>

text \<open>
  A \<open>Record<string, string>\<close> written as an object literal is the list of its entries in
  the order written; \<open>map_of\<close> reads a header.
\<close>

definition createAuthHeaders :: "string \<Rightarrow> (string \<times> string) list" where
  "createAuthHeaders token =
     [(''Content-Type'', ''application/json''),
      (''Accept'', ''application/json''),
      (''Authorization'', ''Bearer '' @ token)]"

definition createHeaders :: "(string \<times> string) list" where
  "createHeaders =
     [(''Content-Type'', ''application/json''),
      (''Accept'', ''application/json'')]"

text \<open>
  \<open>baseUrl.replace(/\/$/, '')\<close>: the pattern has no \<open>g\<close> and no \<open>m\<close> flag, so it matches
  at most once, a single \<open>/\<close> that is the last character of the string.
\<close>

definition cleanBase :: "string \<Rightarrow> string" where
  "cleanBase baseUrl =
     (if baseUrl \<noteq> [] \<and> last baseUrl = CHR ''/'' then butlast baseUrl else baseUrl)"

definition buildUrl :: "string \<Rightarrow> string \<Rightarrow> string" where
  "buildUrl baseUrl path = cleanBase baseUrl @ path"

section \<open>The injected transport\<close>

text \<open>
  \<open>NetworkClient\<close> has four asynchronous methods \<open>get\<close>, \<open>post\<close>, \<open>put\<close> and \<open>delete\<close>,
  each taking a URL and an options object \<open>{headers, body?}\<close> and resolving with
  \<open>{data}\<close> or rejecting. The transport is any implementation, so a call is a function of
  the transport's own state \<open>'s\<close>: it returns the settled promise (\<open>Inl\<close> a rejection,
  \<open>Inr\<close> the response) and the state after the call.
\<close>

record RequestOptions =
  headers :: "(string \<times> string) list"
  body :: "string option"

record 'a NetworkResponse =
  response_data :: 'a

type_synonym ('s, 'x, 'a) http_call =
  "string \<Rightarrow> RequestOptions \<Rightarrow> 's \<Rightarrow> ('x thrown + 'a NetworkResponse) \<times> 's"

record ('s, 'x, 'a) NetworkClient =
  get :: "('s, 'x, 'a) http_call"
  post :: "('s, 'x, 'a) http_call"
  put :: "('s, 'x, 'a) http_call"
  delete :: "('s, 'x, 'a) http_call"

text \<open>The envelope \<open>BaseResponse<T>\<close>: \<open>{success, data?, error?}\<close>.\<close>

record 'a BaseResponse =
  success :: bool
  data :: "'a option"
  error :: "string option"

section \<open>network/StarterClient.ts\<close>

record ('s, 'x, 'a) StarterClient =
  baseUrl :: string
  networkClient :: "('s, 'x, 'a) NetworkClient"

text \<open>
  \<open>const response = await call; return response.data\<close>: a rejection leaves the method
  at the \<open>await\<close>, a response is unwrapped.
\<close>

definition unwrap :: "('x thrown + 'a NetworkResponse) \<times> 's \<Rightarrow> ('x thrown + 'a) \<times> 's" where
  "unwrap r = (case r of (Inl e, s) \<Rightarrow> (Inl e, s) | (Inr response, s) \<Rightarrow> (Inr (response_data response), s))"

definition getUser ::
  "('s, 'x, 'a) StarterClient \<Rightarrow> string \<Rightarrow> string \<Rightarrow> 's \<Rightarrow> ('x thrown + 'a) \<times> 's" where
  "getUser c userId token s =
     (let url = buildUrl (baseUrl c) (''/api/v1/users/'' @ userId)
      in unwrap (get (networkClient c) url
           \<lparr>headers = createAuthHeaders token, body = None\<rparr> s))"

definition getHistories ::
  "('s, 'x, 'a) StarterClient \<Rightarrow> string \<Rightarrow> string \<Rightarrow> 's \<Rightarrow> ('x thrown + 'a) \<times> 's" where
  "getHistories c userId token s =
     (let url = buildUrl (baseUrl c) (''/api/v1/users/'' @ userId @ ''/histories'')
      in unwrap (get (networkClient c) url
           \<lparr>headers = createAuthHeaders token, body = None\<rparr> s))"

text \<open>
  \<open>JSON.stringify(data)\<close> of a request object is its serialisation, a string; the
  request types are declared outside this repository, so the body arrives serialised.
\<close>

definition createHistory ::
  "('s, 'x, 'a) StarterClient \<Rightarrow> string \<Rightarrow> string \<Rightarrow> string \<Rightarrow> 's \<Rightarrow> ('x thrown + 'a) \<times> 's" where
  "createHistory c userId json token s =
     (let url = buildUrl (baseUrl c) (''/api/v1/users/'' @ userId @ ''/histories'')
      in unwrap (post (networkClient c) url
           \<lparr>headers = createAuthHeaders token, body = Some json\<rparr> s))"

definition updateHistory ::
  "('s, 'x, 'a) StarterClient \<Rightarrow> string \<Rightarrow> string \<Rightarrow> string \<Rightarrow> string \<Rightarrow> 's
     \<Rightarrow> ('x thrown + 'a) \<times> 's" where
  "updateHistory c userId historyId json token s =
     (let url = buildUrl (baseUrl c)
                  (''/api/v1/users/'' @ userId @ ''/histories/'' @ historyId)
      in unwrap (put (networkClient c) url
           \<lparr>headers = createAuthHeaders token, body = Some json\<rparr> s))"

definition deleteHistory ::
  "('s, 'x, 'a) StarterClient \<Rightarrow> string \<Rightarrow> string \<Rightarrow> string \<Rightarrow> 's \<Rightarrow> ('x thrown + 'a) \<times> 's" where
  "deleteHistory c userId historyId token s =
     (let url = buildUrl (baseUrl c)
                  (''/api/v1/users/'' @ userId @ ''/histories/'' @ historyId)
      in unwrap (delete (networkClient c) url
           \<lparr>headers = createAuthHeaders token, body = None\<rparr> s))"

definition getHistoriesTotal ::
  "('s, 'x, 'a) StarterClient \<Rightarrow> 's \<Rightarrow> ('x thrown + 'a) \<times> 's" where
  "getHistoriesTotal c s =
     (let url = buildUrl (baseUrl c) ''/api/v1/histories/total''
      in unwrap (get (networkClient c) url \<lparr>headers = createHeaders, body = None\<rparr> s))"

section \<open>network/StarterClient.test.ts: the mocked transport\<close>

text \<open>
  \<open>createMockNetworkClient(responseData)\<close> builds four \<open>vi.fn()\<close> mocks that resolve with
  \<open>{data: responseData}\<close>. A mock remembers the arguments of every call; the transport's
  state is that record, each call tagged with the method it went to.
\<close>

datatype verb = GET | POST | PUT | DELETE

type_synonym call = "verb \<times> string \<times> RequestOptions"

definition mockResolvedValue ::
  "verb \<Rightarrow> 'a NetworkResponse \<Rightarrow> (call list, 'x, 'a) http_call" where
  "mockResolvedValue v mockResponse url opts calls = (Inr mockResponse, calls @ [(v, url, opts)])"

definition createMockNetworkClient :: "'a \<Rightarrow> (call list, 'x, 'a) NetworkClient" where
  "createMockNetworkClient responseData =
     (let mockResponse = \<lparr>response_data = responseData\<rparr>
      in \<lparr>get = mockResolvedValue GET mockResponse,
          post = mockResolvedValue POST mockResponse,
          put = mockResolvedValue PUT mockResponse,
          delete = mockResolvedValue DELETE mockResponse\<rparr>)"

text \<open>
  The same record kept around an arbitrary transport: \<open>spy nc\<close> behaves as \<open>nc\<close> and
  appends every call it receives to a log.
\<close>

definition spy_call :: "verb \<Rightarrow> ('s, 'x, 'a) http_call \<Rightarrow> (call list \<times> 's, 'x, 'a) http_call" where
  "spy_call v f url opts st =
     (case st of (calls, s) \<Rightarrow>
        (case f url opts s of (r, s') \<Rightarrow> (r, (calls @ [(v, url, opts)], s'))))"

definition spy :: "('s, 'x, 'a) NetworkClient \<Rightarrow> (call list \<times> 's, 'x, 'a) NetworkClient" where
  "spy nc =
     \<lparr>get = spy_call GET (get nc), post = spy_call POST (post nc),
      put = spy_call PUT (put nc), delete = spy_call DELETE (delete nc)\<rparr>"

section \<open>The query engine\<close>

text \<open>
  Modelled from the spec: the caching query engine (\<open>useQuery\<close>, \<open>useMutation\<close>,
  \<open>useQueryClient\<close> of the third-party query library) is not part of the repository.
  The spec gives its contract: a query is disabled, or it fetches and settles in success
  or error; no request is issued while it is disabled; on success the data is stored under
  the query's cache key with the staleness and garbage-collection windows; a mutation runs
  its function and, when that resolves, its success callback; invalidation marks a key.

  The model covers one mount of a query whose key has nothing cached, up to the point where
  the query has settled (so \<open>isLoading\<close> is false in every result), and one call of a
  mutation function. The engine may run a failing query function again before it reports
  the error; \<open>retry\<close> is the number of such further attempts, a setting of the engine.
  \<open>invalidated\<close> is the sequence of keys \<open>invalidateQueries\<close> was called with. The
  \<open>refetch\<close> function a query returns is not modelled.
\<close>

record 'd CacheEntry =
  entry_data :: 'd
  entry_staleTime :: int
  entry_gcTime :: int

record ('s, 'd) World =
  network :: 's
  retry :: nat
  cache :: "string list \<Rightarrow> 'd CacheEntry option"
  invalidated :: "string list list"

record ('s, 'x, 'd) UseQueryOptions =
  queryKey :: "string list"
  queryFn :: "'s \<Rightarrow> ('x thrown + 'd) \<times> 's"
  enabled :: bool
  staleTime :: int
  gcTime :: int

record ('x, 'd) UseQueryResult =
  data :: "'d option"
  isLoading :: bool
  error :: "'x thrown option"

fun fetch :: "nat \<Rightarrow> ('s \<Rightarrow> ('e + 'd) \<times> 's) \<Rightarrow> 's \<Rightarrow> ('e + 'd) \<times> 's" where
  "fetch 0 f s = f s"
| "fetch (Suc n) f s =
     (case f s of (Inr d, s') \<Rightarrow> (Inr d, s') | (Inl e, s') \<Rightarrow> fetch n f s')"

definition useQuery ::
  "('s, 'x, 'd) UseQueryOptions \<Rightarrow> ('s, 'd) World \<Rightarrow> ('x, 'd) UseQueryResult \<times> ('s, 'd) World" where
  "useQuery opts w =
     (if \<not> enabled opts then (\<lparr>data = None, isLoading = False, error = None\<rparr>, w)
      else
        (case fetch (retry w) (queryFn opts) (network w) of
           (Inl e, s') \<Rightarrow>
             (\<lparr>data = None, isLoading = False, error = Some e\<rparr>, w\<lparr>network := s'\<rparr>)
         | (Inr d, s') \<Rightarrow>
             (\<lparr>data = Some d, isLoading = False, error = None\<rparr>,
              w\<lparr>network := s',
                cache := (cache w)(queryKey opts \<mapsto>
                  \<lparr>entry_data = d, entry_staleTime = staleTime opts,
                   entry_gcTime = gcTime opts\<rparr>)\<rparr>)))"

definition invalidateQueries :: "string list \<Rightarrow> ('s, 'd) World \<Rightarrow> ('s, 'd) World" where
  "invalidateQueries key w = w\<lparr>invalidated := invalidated w @ [key]\<rparr>"

text \<open>
  \<open>mutateAsync\<close> returns the settled promise of the mutation function, the \<open>error\<close> the
  mutation then holds, and the world after the success callback has run.
\<close>

definition mutateAsync ::
  "('s \<Rightarrow> ('x thrown + 'r) \<times> 's) \<Rightarrow> ('r \<Rightarrow> ('s, 'd) World \<Rightarrow> ('s, 'd) World) \<Rightarrow> ('s, 'd) World
     \<Rightarrow> ('x thrown + 'r) \<times> 'x thrown option \<times> ('s, 'd) World" where
  "mutateAsync mutationFn onSuccess w =
     (case mutationFn (network w) of
        (Inl e, s') \<Rightarrow> (Inl e, Some e, w\<lparr>network := s'\<rparr>)
      | (Inr r, s') \<Rightarrow> (Inr r, None, onSuccess r (w\<lparr>network := s'\<rparr>)))"

section \<open>hooks/useHistories.ts\<close>

text \<open>
  The optional argument \<open>options?: { enabled?: boolean }\<close>; \<open>options?.enabled ?? true\<close> is
  true when the argument or its field is absent.
\<close>

record HookOptions =
  enabled :: "bool option"

definition enabled_or_true :: "HookOptions option \<Rightarrow> bool" where
  "enabled_or_true options =
     (case options of None \<Rightarrow> True
      | Some opts \<Rightarrow> (case HookOptions.enabled opts of None \<Rightarrow> True | Some b \<Rightarrow> b))"

record 'h UseHistoriesReturn =
  histories :: "'h list"
  isLoading :: bool
  error :: "string option"

text \<open>
  The query function. \<open>userId!\<close> and \<open>token!\<close> only silence the type checker; the client
  interpolates both into strings. \<open>!response.data\<close> is true exactly when \<open>data\<close> is absent:
  an array is truthy, also when it is empty.
\<close>

definition useHistories_queryFn ::
  "('s, 'x, 'h list BaseResponse) StarterClient \<Rightarrow> string option \<Rightarrow> string option \<Rightarrow> 's
     \<Rightarrow> ('x thrown + 'h list) \<times> 's" where
  "useHistories_queryFn client userId token s =
     (case getHistories client (interpolate userId) (interpolate token) s of
        (Inl e, s') \<Rightarrow> (Inl e, s')
      | (Inr response, s') \<Rightarrow>
          (case (success response, BaseResponse.data response) of
             (True, Some d) \<Rightarrow> (Inr d, s')
           | _ \<Rightarrow>
             (Inl (Error (or_else (BaseResponse.error response) ''Failed to fetch histories'')),
              s')))"

definition useHistories_enabled :: "HookOptions option \<Rightarrow> string option \<Rightarrow> string option \<Rightarrow> bool" where
  "useHistories_enabled options userId token =
     (enabled_or_true options \<and> truthy userId \<and> truthy token)"

definition useHistories ::
  "('s, 'x, 'h list BaseResponse) NetworkClient \<Rightarrow> string \<Rightarrow> string option \<Rightarrow> string option
     \<Rightarrow> HookOptions option \<Rightarrow> ('s, 'h list) World
     \<Rightarrow> 'h UseHistoriesReturn \<times> ('s, 'h list) World" where
  "useHistories nc base userId token options w =
     (let enabled' = useHistories_enabled options userId token;
          client = \<lparr>baseUrl = base, networkClient = nc\<rparr>;
          (q, w') = useQuery
            \<lparr>queryKey = QUERY_KEYS_histories (case userId of None \<Rightarrow> [] | Some u \<Rightarrow> u),
             queryFn = useHistories_queryFn client userId token,
             enabled = enabled',
             staleTime = 5 * 60 * 1000,
             gcTime = 30 * 60 * 1000\<rparr> w;
          error' = error_message (UseQueryResult.error q)
      in (\<lparr>histories = (case UseQueryResult.data q of None \<Rightarrow> [] | Some d \<Rightarrow> d),
           isLoading = UseQueryResult.isLoading q,
           error = error'\<rparr>, w'))"

text \<open>
  The other copy of the hook differs in one place: it names the two windows by the
  constants of \<open>types.ts\<close>.
\<close>

definition useHistories_defaults ::
  "('s, 'x, 'h list BaseResponse) NetworkClient \<Rightarrow> string \<Rightarrow> string option \<Rightarrow> string option
     \<Rightarrow> HookOptions option \<Rightarrow> ('s, 'h list) World
     \<Rightarrow> 'h UseHistoriesReturn \<times> ('s, 'h list) World" where
  "useHistories_defaults nc base userId token options w =
     (let enabled' = useHistories_enabled options userId token;
          client = \<lparr>baseUrl = base, networkClient = nc\<rparr>;
          (q, w') = useQuery
            \<lparr>queryKey = QUERY_KEYS_histories (case userId of None \<Rightarrow> [] | Some u \<Rightarrow> u),
             queryFn = useHistories_queryFn client userId token,
             enabled = enabled',
             staleTime = DEFAULT_STALE_TIME,
             gcTime = DEFAULT_GC_TIME\<rparr> w;
          error' = error_message (UseQueryResult.error q)
      in (\<lparr>histories = (case UseQueryResult.data q of None \<Rightarrow> [] | Some d \<Rightarrow> d),
           isLoading = UseQueryResult.isLoading q,
           error = error'\<rparr>, w'))"

section \<open>hooks/useHistoriesTotal.ts\<close>

text \<open>
  \<open>HistoryTotalResponse\<close> is \<open>{total: number}\<close>; the hooks only pass the number on.
  An object is truthy, so \<open>!response.data\<close> is again true exactly when \<open>data\<close> is absent.
\<close>

record HistoryTotalResponse =
  total :: int

record UseHistoriesTotalReturn =
  total :: int
  isLoading :: bool
  error :: "string option"

definition useHistoriesTotal_queryFn ::
  "('s, 'x, HistoryTotalResponse BaseResponse) StarterClient \<Rightarrow> 's
     \<Rightarrow> ('x thrown + HistoryTotalResponse) \<times> 's" where
  "useHistoriesTotal_queryFn client s =
     (case getHistoriesTotal client s of
        (Inl e, s') \<Rightarrow> (Inl e, s')
      | (Inr response, s') \<Rightarrow>
          (case (success response, BaseResponse.data response) of
             (True, Some d) \<Rightarrow> (Inr d, s')
           | _ \<Rightarrow>
             (Inl (Error (or_else (BaseResponse.error response) ''Failed to fetch total'')),
              s')))"

definition useHistoriesTotal ::
  "('s, 'x, HistoryTotalResponse BaseResponse) NetworkClient \<Rightarrow> string
     \<Rightarrow> HookOptions option \<Rightarrow> ('s, HistoryTotalResponse) World
     \<Rightarrow> UseHistoriesTotalReturn \<times> ('s, HistoryTotalResponse) World" where
  "useHistoriesTotal nc base options w =
     (let enabled' = enabled_or_true options;
          client = \<lparr>baseUrl = base, networkClient = nc\<rparr>;
          (q, w') = useQuery
            \<lparr>queryKey = QUERY_KEYS_historiesTotal,
             queryFn = useHistoriesTotal_queryFn client,
             enabled = enabled',
             staleTime = 5 * 60 * 1000,
             gcTime = 30 * 60 * 1000\<rparr> w;
          error' = error_message (UseQueryResult.error q)
      in (\<lparr>total = (case UseQueryResult.data q of None \<Rightarrow> 0
                      | Some d \<Rightarrow> HistoryTotalResponse.total d),
           isLoading = UseQueryResult.isLoading q,
           error = error'\<rparr>, w'))"

section \<open>hooks/useHistoryMutations.ts\<close>

text \<open>
  The hook holds three mutations; of each, the \<open>error\<close> it holds is what the hook reads.
\<close>

record 'x Mutations =
  createMutation_error :: "'x thrown option"
  updateMutation_error :: "'x thrown option"
  deleteMutation_error :: "'x thrown option"

definition invalidate :: "string option \<Rightarrow> ('s, 'd) World \<Rightarrow> ('s, 'd) World" where
  "invalidate userId w =
     (let w1 = (case userId of
                  None \<Rightarrow> w
                | Some u \<Rightarrow> if u \<noteq> [] then invalidateQueries (QUERY_KEYS_histories u) w else w)
      in invalidateQueries QUERY_KEYS_historiesTotal w1)"

definition onSuccess ::
  "string option \<Rightarrow> 'a BaseResponse \<Rightarrow> ('s, 'd) World \<Rightarrow> ('s, 'd) World" where
  "onSuccess userId response w = (if success response then invalidate userId w else w)"

definition useHistoryMutations_createHistory ::
  "('s, 'x, 'a BaseResponse) NetworkClient \<Rightarrow> string \<Rightarrow> string option \<Rightarrow> string option
     \<Rightarrow> string \<Rightarrow> 'x Mutations \<times> ('s, 'd) World
     \<Rightarrow> ('x thrown + 'a BaseResponse) \<times> 'x Mutations \<times> ('s, 'd) World" where
  "useHistoryMutations_createHistory nc base userId token json st =
     (case st of (m, w) \<Rightarrow>
        (let client = \<lparr>baseUrl = base, networkClient = nc\<rparr>
         in case mutateAsync
                   (createHistory client (interpolate userId) json (interpolate token))
                   (onSuccess userId) w of
              (r, e, w') \<Rightarrow> (r, m\<lparr>createMutation_error := e\<rparr>, w')))"

definition useHistoryMutations_updateHistory ::
  "('s, 'x, 'a BaseResponse) NetworkClient \<Rightarrow> string \<Rightarrow> string option \<Rightarrow> string option
     \<Rightarrow> string \<Rightarrow> string \<Rightarrow> 'x Mutations \<times> ('s, 'd) World
     \<Rightarrow> ('x thrown + 'a BaseResponse) \<times> 'x Mutations \<times> ('s, 'd) World" where
  "useHistoryMutations_updateHistory nc base userId token historyId json st =
     (case st of (m, w) \<Rightarrow>
        (let client = \<lparr>baseUrl = base, networkClient = nc\<rparr>
         in case mutateAsync
                   (updateHistory client (interpolate userId) historyId json (interpolate token))
                   (onSuccess userId) w of
              (r, e, w') \<Rightarrow> (r, m\<lparr>updateMutation_error := e\<rparr>, w')))"

definition useHistoryMutations_deleteHistory ::
  "('s, 'x, 'a BaseResponse) NetworkClient \<Rightarrow> string \<Rightarrow> string option \<Rightarrow> string option
     \<Rightarrow> string \<Rightarrow> 'x Mutations \<times> ('s, 'd) World
     \<Rightarrow> ('x thrown + 'a BaseResponse) \<times> 'x Mutations \<times> ('s, 'd) World" where
  "useHistoryMutations_deleteHistory nc base userId token historyId st =
     (case st of (m, w) \<Rightarrow>
        (let client = \<lparr>baseUrl = base, networkClient = nc\<rparr>
         in case mutateAsync
                   (deleteHistory client (interpolate userId) historyId (interpolate token))
                   (onSuccess userId) w of
              (r, e, w') \<Rightarrow> (r, m\<lparr>deleteMutation_error := e\<rparr>, w')))"

text \<open>
  \<open>a ?? b\<close> is \<open>b\<close> when \<open>a\<close> is \<open>null\<close> or \<open>undefined\<close>: when the mutation holds no
  error, and also when the error it holds is itself one of the two.
\<close>

definition nullish_or :: "'x thrown option \<Rightarrow> 'x thrown option \<Rightarrow> 'x thrown option" where
  "nullish_or a b = (case a of None \<Rightarrow> b | Some Nullish \<Rightarrow> b | Some e \<Rightarrow> Some e)"

text \<open>
  \<open>createMutation.error ?? updateMutation.error ?? deleteMutation.error\<close>, then its
  message when it is an \<open>Error\<close>.
\<close>

definition useHistoryMutations_error :: "'x Mutations \<Rightarrow> string option" where
  "useHistoryMutations_error m =
     (let mutationError =
            nullish_or (nullish_or (createMutation_error m) (updateMutation_error m))
              (deleteMutation_error m)
      in error_message mutationError)"

definition clearError :: "'x Mutations \<Rightarrow> 'x Mutations" where
  "clearError m =
     m\<lparr>createMutation_error := None, updateMutation_error := None,
       deleteMutation_error := None\<rparr>"

section \<open>Fixtures\<close>

text \<open>
  The \<open>User\<close> of the client's test: \<open>firebase_uid\<close>, \<open>email\<close>, \<open>display_name\<close> and two
  nullable timestamps.
\<close>

record User =
  firebase_uid :: string
  email :: string
  display_name :: string
  created_at :: "string option"
  updated_at :: "string option"

text \<open>
  A world in which nothing has happened yet: nothing cached, nothing invalidated, and an
  engine that does not repeat a failed fetch. A hook that holds no mutation error.
\<close>

definition initial_world :: "'s \<Rightarrow> ('s, 'd) World" where
  "initial_world s = \<lparr>network = s, retry = 0, cache = (\<lambda>key. None), invalidated = []\<rparr>"

definition no_errors :: "'x Mutations" where
  "no_errors =
     \<lparr>createMutation_error = None, updateMutation_error = None, deleteMutation_error = None\<rparr>"

text \<open>The headers a recorded call was made with.\<close>

definition sent_headers :: "call \<Rightarrow> (string \<times> string) list" where
  "sent_headers c = (case c of (v, url, opts) \<Rightarrow> headers opts)"

text \<open>A transport whose every call rejects with the same value and changes nothing.\<close>

definition rejecting :: "'x thrown \<Rightarrow> ('s, 'x, 'a) NetworkClient" where
  "rejecting e =
     \<lparr>get = (\<lambda>url opts s. (Inl e, s)), post = (\<lambda>url opts s. (Inl e, s)),
      put = (\<lambda>url opts s. (Inl e, s)), delete = (\<lambda>url opts s. (Inl e, s))\<rparr>"

text \<open>
  Whether a URL that ends in \<open>path\<close> has a slash on both sides of the place where the
  path was joined on: what stands before the path in the URL ends in \<open>/\<close>, and the path
  begins with \<open>/\<close>. It is read off the URL, the output of \<open>buildUrl\<close>.
\<close>

definition double_slash_at_join :: "string \<Rightarrow> string \<Rightarrow> bool" where
  "double_slash_at_join url path =
     (case (rev (take (length url - length path) url), path) of
        (a # _, b # _) \<Rightarrow> a = CHR ''/'' \<and> b = CHR ''/''
      | _ \<Rightarrow> False)"

section \<open>URL construction\<close>

lemma cleanBase_snoc_slash: "cleanBase (b @ ''/'') = b"
  by (simp add: cleanBase_def)

lemma cleanBase_no_slash: "\<not> suffix ''/'' b \<Longrightarrow> cleanBase b = b"
  by (cases b rule: rev_cases) (auto simp: cleanBase_def suffix_def)

lemma cleanBase_ends_slash: "suffix ''/'' (cleanBase b) \<longleftrightarrow> suffix ''//'' b"
proof (cases b rule: rev_cases)
  case Nil
  then show ?thesis by (simp add: cleanBase_def)
next
  case (snoc ys y)
  show ?thesis
  proof (cases "y = CHR ''/''")
    case True
    with snoc have "cleanBase b = ys" by (simp add: cleanBase_def)
    moreover have "suffix ''//'' (ys @ ''/'') \<longleftrightarrow> suffix ''/'' ys"
      by (metis append_Cons append_Nil same_suffix_suffix)
    ultimately show ?thesis using snoc True by simp
  next
    case False
    with snoc have "cleanBase b = b" by (simp add: cleanBase_def)
    moreover have "\<not> suffix ''/'' b" using snoc False by (auto simp: suffix_def)
    moreover have "\<not> suffix ''//'' b" using snoc False by (auto simp: suffix_def)
    ultimately show ?thesis by simp
  qed
qed

lemma double_slash_at_join_append:
  "double_slash_at_join (b @ path) path \<longleftrightarrow> suffix ''/'' b \<and> prefix ''/'' path"
proof -
  have s: "suffix ''/'' xs \<longleftrightarrow> (\<exists>ys. rev xs = CHR ''/'' # ys)" for xs :: string
    by (cases xs rule: rev_cases) (auto simp: suffix_def)
  have p: "prefix ''/'' xs \<longleftrightarrow> (\<exists>ys. xs = CHR ''/'' # ys)" for xs :: string
    by (cases xs) (auto simp: prefix_def)
  show ?thesis
    unfolding s p
    by (auto simp: double_slash_at_join_def split: list.splits)
qed

text \<open>
  The spec's own example: against the base \<open>https://api.example.com/\<close> the total is
  fetched from \<open>https://api.example.com/api/v1/histories/total\<close>.
\<close>

lemma buildUrl_example:
  "buildUrl ''https://api.example.com/'' ''/api/v1/histories/total''
     = ''https://api.example.com/api/v1/histories/total''"
  by (simp add: buildUrl_def cleanBase_def)

text \<open>
  C3, as the spec states it: for every base and every path, \<open>buildUrl\<close> leaves no double
  slash at the join, however many slashes the base ends in. It fails for a base that ends
  in two slashes: only one of them is removed.
\<close>

theorem buildUrl_double_slash_counterexample:
  "double_slash_at_join
     (buildUrl ''https://api.example.com//'' ''/api/v1/histories/total'')
     ''/api/v1/histories/total'' \<and>
   buildUrl ''https://api.example.com//'' ''/api/v1/histories/total''
     = ''https://api.example.com//api/v1/histories/total''"
  by (simp add: double_slash_at_join_def buildUrl_def cleanBase_def)

text \<open>
  C3, amended: \<open>buildUrl\<close> removes exactly one trailing slash of the base and appends the
  path: a base \<open>b/\<close> gives \<open>b\<close> followed by the path, a base that does not end in a slash
  gives the base followed by the path. So the URL it returns has a double slash at the join
  exactly when the base ends in two (or more) slashes and the path begins with one; for a
  base that ends in at most one slash there is none, whatever the path.
\<close>

theorem buildUrl_double_slash_iff:
  "buildUrl (b @ ''/'') path = b @ path
   \<and> (\<not> suffix ''/'' base \<longrightarrow> buildUrl base path = base @ path)
   \<and> (double_slash_at_join (buildUrl base path) path
        \<longleftrightarrow> suffix ''//'' base \<and> prefix ''/'' path)"
proof -
  have "double_slash_at_join (buildUrl base path) path
          \<longleftrightarrow> suffix ''/'' (cleanBase base) \<and> prefix ''/'' path"
    unfolding buildUrl_def by (rule double_slash_at_join_append)
  then show ?thesis
    by (simp add: buildUrl_def cleanBase_snoc_slash cleanBase_no_slash cleanBase_ends_slash)
qed

text \<open>C3, amended, at the base and the path of the spec's example.\<close>

theorem buildUrl_double_slash_iff_witness:
  "buildUrl ''https://api.example.com/'' ''/api/v1/histories/total''
     = ''https://api.example.com/api/v1/histories/total''
   \<and> \<not> suffix ''/'' ''https://api.example.com''
   \<and> buildUrl ''https://api.example.com'' ''/api/v1/histories/total''
     = ''https://api.example.com/api/v1/histories/total''
   \<and> \<not> double_slash_at_join
         (buildUrl ''https://api.example.com/'' ''/api/v1/histories/total'')
         ''/api/v1/histories/total''"
  using buildUrl_double_slash_iff
      [of "''https://api.example.com''" "''/api/v1/histories/total''" "''https://api.example.com''"]
    buildUrl_double_slash_iff
      [of "''https://api.example.com''" "''/api/v1/histories/total''" "''https://api.example.com/''"]
  by (simp add: suffix_to_prefix)

section \<open>The client's calls\<close>

lemma unwrap_simps [simp]:
  "unwrap (Inl e, s) = (Inl e, s)"
  "unwrap (Inr response, s) = (Inr (response_data response), s)"
  by (simp_all add: unwrap_def)

lemma snd_unwrap [simp]: "snd (unwrap r) = snd r"
  by (cases r; cases "fst r") (auto simp: unwrap_def)

lemma fst_unwrap_Inl: "fst r = Inl e \<Longrightarrow> fst (unwrap r) = Inl e"
  by (cases r) (simp add: unwrap_def)

lemma fst_unwrap_Inr: "fst r = Inr response \<Longrightarrow> fst (unwrap r) = Inr (response_data response)"
  by (cases r) (simp add: unwrap_def)

lemma spy_call_eq:
  "spy_call v f url opts (calls, s) =
     (fst (f url opts s), (calls @ [(v, url, opts)], snd (f url opts s)))"
  by (simp add: spy_call_def split: prod.splits)

lemma spy_sel [simp]:
  "get (spy nc) = spy_call GET (get nc)"
  "post (spy nc) = spy_call POST (post nc)"
  "put (spy nc) = spy_call PUT (put nc)"
  "delete (spy nc) = spy_call DELETE (delete nc)"
  by (simp_all add: spy_def)

lemma mock_sel [simp]:
  "get (createMockNetworkClient d) = mockResolvedValue GET \<lparr>response_data = d\<rparr>"
  "post (createMockNetworkClient d) = mockResolvedValue POST \<lparr>response_data = d\<rparr>"
  "put (createMockNetworkClient d) = mockResolvedValue PUT \<lparr>response_data = d\<rparr>"
  "delete (createMockNetworkClient d) = mockResolvedValue DELETE \<lparr>response_data = d\<rparr>"
  by (simp_all add: createMockNetworkClient_def Let_def)

lemma mockResolvedValue_eq [simp]:
  "mockResolvedValue v r url opts calls = (Inr r, calls @ [(v, url, opts)])"
  by (simp add: mockResolvedValue_def)

lemma getUser_spy:
  "fst (snd (getUser \<lparr>baseUrl = b, networkClient = spy nc\<rparr> userId token (calls, s))) =
     calls @ [(GET, buildUrl b (''/api/v1/users/'' @ userId),
               \<lparr>headers = createAuthHeaders token, body = None\<rparr>)]"
  by (simp add: getUser_def Let_def spy_call_eq)

lemma getHistories_spy:
  "fst (snd (getHistories \<lparr>baseUrl = b, networkClient = spy nc\<rparr> userId token (calls, s))) =
     calls @ [(GET, buildUrl b (''/api/v1/users/'' @ userId @ ''/histories''),
               \<lparr>headers = createAuthHeaders token, body = None\<rparr>)]"
  by (simp add: getHistories_def Let_def spy_call_eq)

lemma createHistory_spy:
  "fst (snd (createHistory \<lparr>baseUrl = b, networkClient = spy nc\<rparr> userId json token (calls, s))) =
     calls @ [(POST, buildUrl b (''/api/v1/users/'' @ userId @ ''/histories''),
               \<lparr>headers = createAuthHeaders token, body = Some json\<rparr>)]"
  by (simp add: createHistory_def Let_def spy_call_eq)

lemma updateHistory_spy:
  "fst (snd (updateHistory \<lparr>baseUrl = b, networkClient = spy nc\<rparr> userId historyId json token
               (calls, s))) =
     calls @ [(PUT, buildUrl b (''/api/v1/users/'' @ userId @ ''/histories/'' @ historyId),
               \<lparr>headers = createAuthHeaders token, body = Some json\<rparr>)]"
  by (simp add: updateHistory_def Let_def spy_call_eq)

lemma deleteHistory_spy:
  "fst (snd (deleteHistory \<lparr>baseUrl = b, networkClient = spy nc\<rparr> userId historyId token
               (calls, s))) =
     calls @ [(DELETE, buildUrl b (''/api/v1/users/'' @ userId @ ''/histories/'' @ historyId),
               \<lparr>headers = createAuthHeaders token, body = None\<rparr>)]"
  by (simp add: deleteHistory_def Let_def spy_call_eq)

lemma getHistoriesTotal_spy:
  "fst (snd (getHistoriesTotal \<lparr>baseUrl = b, networkClient = spy nc\<rparr> (calls, s))) =
     calls @ [(GET, buildUrl b ''/api/v1/histories/total'',
               \<lparr>headers = createHeaders, body = None\<rparr>)]"
  by (simp add: getHistoriesTotal_def Let_def spy_call_eq)

lemmas client_spy =
  getUser_spy getHistories_spy createHistory_spy updateHistory_spy deleteHistory_spy
  getHistoriesTotal_spy

text \<open>
  C5: whatever the token, each authenticated method (\<open>getUser\<close>, \<open>getHistories\<close>,
  \<open>createHistory\<close>, \<open>updateHistory\<close>, \<open>deleteHistory\<close>) sends exactly the three headers
  \<open>Content-Type: application/json\<close>, \<open>Accept: application/json\<close> and
  \<open>Authorization: Bearer <token>\<close>; \<open>getHistoriesTotal\<close> sends the first two only and has
  no \<open>Authorization\<close> header. The headers are read off the calls a spied transport receives.
\<close>

theorem client_headers:
  "(let auth = [[(''Content-Type'', ''application/json''), (''Accept'', ''application/json''),
                 (''Authorization'', ''Bearer '' @ token)]]
    in map sent_headers (fst (snd (getUser \<lparr>baseUrl = b, networkClient = spy nc\<rparr>
                                     userId token ([], s)))) = auth
     \<and> map sent_headers (fst (snd (getHistories \<lparr>baseUrl = b, networkClient = spy nc\<rparr>
                                     userId token ([], s)))) = auth
     \<and> map sent_headers (fst (snd (createHistory \<lparr>baseUrl = b, networkClient = spy nc\<rparr>
                                     userId json token ([], s)))) = auth
     \<and> map sent_headers (fst (snd (updateHistory \<lparr>baseUrl = b, networkClient = spy nc\<rparr>
                                     userId historyId json token ([], s)))) = auth
     \<and> map sent_headers (fst (snd (deleteHistory \<lparr>baseUrl = b, networkClient = spy nc\<rparr>
                                     userId historyId token ([], s)))) = auth)
   \<and> map sent_headers (fst (snd (getHistoriesTotal \<lparr>baseUrl = b, networkClient = spy nc\<rparr>
                                     ([], s))))
       = [[(''Content-Type'', ''application/json''), (''Accept'', ''application/json'')]]
   \<and> map (\<lambda>c. map_of (sent_headers c) ''Authorization'')
         (fst (snd (getHistoriesTotal \<lparr>baseUrl = b, networkClient = spy nc\<rparr> ([], s))))
       = [None]"
  by (simp add: client_spy sent_headers_def createAuthHeaders_def createHeaders_def Let_def)


lemma client_rejects:
  fixes nc :: "('s, 'x, 'a) NetworkClient"
  shows "\<forall>url opts. fst (get nc url opts s) = Inl e \<Longrightarrow>
           fst (getUser \<lparr>baseUrl = b, networkClient = nc\<rparr> userId token s) = Inl e"
    and "\<forall>url opts. fst (get nc url opts s) = Inl e \<Longrightarrow>
           fst (getHistories \<lparr>baseUrl = b, networkClient = nc\<rparr> userId token s) = Inl e"
    and "\<forall>url opts. fst (post nc url opts s) = Inl e \<Longrightarrow>
           fst (createHistory \<lparr>baseUrl = b, networkClient = nc\<rparr> userId json token s) = Inl e"
    and "\<forall>url opts. fst (put nc url opts s) = Inl e \<Longrightarrow>
           fst (updateHistory \<lparr>baseUrl = b, networkClient = nc\<rparr> userId historyId json token s)
             = Inl e"
    and "\<forall>url opts. fst (delete nc url opts s) = Inl e \<Longrightarrow>
           fst (deleteHistory \<lparr>baseUrl = b, networkClient = nc\<rparr> userId historyId token s)
             = Inl e"
    and "\<forall>url opts. fst (get nc url opts s) = Inl e \<Longrightarrow>
           fst (getHistoriesTotal \<lparr>baseUrl = b, networkClient = nc\<rparr> s) = Inl e"
  by (simp_all add: getUser_def getHistories_def createHistory_def updateHistory_def
        deleteHistory_def getHistoriesTotal_def Let_def fst_unwrap_Inl)

lemma client_resolves:
  fixes nc :: "('s, 'x, 'a) NetworkClient"
  shows "\<forall>url opts. fst (get nc url opts s) = Inr \<lparr>response_data = r\<rparr> \<Longrightarrow>
           fst (getUser \<lparr>baseUrl = b, networkClient = nc\<rparr> userId token s) = Inr r"
    and "\<forall>url opts. fst (get nc url opts s) = Inr \<lparr>response_data = r\<rparr> \<Longrightarrow>
           fst (getHistories \<lparr>baseUrl = b, networkClient = nc\<rparr> userId token s) = Inr r"
    and "\<forall>url opts. fst (post nc url opts s) = Inr \<lparr>response_data = r\<rparr> \<Longrightarrow>
           fst (createHistory \<lparr>baseUrl = b, networkClient = nc\<rparr> userId json token s) = Inr r"
    and "\<forall>url opts. fst (put nc url opts s) = Inr \<lparr>response_data = r\<rparr> \<Longrightarrow>
           fst (updateHistory \<lparr>baseUrl = b, networkClient = nc\<rparr> userId historyId json token s)
             = Inr r"
    and "\<forall>url opts. fst (delete nc url opts s) = Inr \<lparr>response_data = r\<rparr> \<Longrightarrow>
           fst (deleteHistory \<lparr>baseUrl = b, networkClient = nc\<rparr> userId historyId token s)
             = Inr r"
    and "\<forall>url opts. fst (get nc url opts s) = Inr \<lparr>response_data = r\<rparr> \<Longrightarrow>
           fst (getHistoriesTotal \<lparr>baseUrl = b, networkClient = nc\<rparr> s) = Inr r"
  by (simp_all add: getUser_def getHistories_def createHistory_def updateHistory_def
        deleteHistory_def getHistoriesTotal_def Let_def fst_unwrap_Inr)

text \<open>
  C7: every method of the client makes exactly one call to the transport it was given,
  whatever the transport answers, and when that call rejects the method rejects with the
  very same value.
\<close>

theorem client_one_call_rejection_unmodified:
  fixes nc :: "('s, 'x, 'a) NetworkClient"
  shows
    "length (fst (snd (getUser \<lparr>baseUrl = b, networkClient = spy nc\<rparr>
                         userId token ([], s)))) = 1
   \<and> length (fst (snd (getHistories \<lparr>baseUrl = b, networkClient = spy nc\<rparr>
                         userId token ([], s)))) = 1
   \<and> length (fst (snd (createHistory \<lparr>baseUrl = b, networkClient = spy nc\<rparr>
                         userId json token ([], s)))) = 1
   \<and> length (fst (snd (updateHistory \<lparr>baseUrl = b, networkClient = spy nc\<rparr>
                         userId historyId json token ([], s)))) = 1
   \<and> length (fst (snd (deleteHistory \<lparr>baseUrl = b, networkClient = spy nc\<rparr>
                         userId historyId token ([], s)))) = 1
   \<and> length (fst (snd (getHistoriesTotal \<lparr>baseUrl = b, networkClient = spy nc\<rparr>
                         ([], s)))) = 1
   \<and> ((\<forall>url opts. fst (get nc url opts s) = Inl e) \<longrightarrow>
        fst (getUser \<lparr>baseUrl = b, networkClient = nc\<rparr> userId token s) = Inl e
      \<and> fst (getHistories \<lparr>baseUrl = b, networkClient = nc\<rparr> userId token s) = Inl e
      \<and> fst (getHistoriesTotal \<lparr>baseUrl = b, networkClient = nc\<rparr> s) = Inl e)
   \<and> ((\<forall>url opts. fst (post nc url opts s) = Inl e) \<longrightarrow>
        fst (createHistory \<lparr>baseUrl = b, networkClient = nc\<rparr> userId json token s) = Inl e)
   \<and> ((\<forall>url opts. fst (put nc url opts s) = Inl e) \<longrightarrow>
        fst (updateHistory \<lparr>baseUrl = b, networkClient = nc\<rparr> userId historyId json token s)
          = Inl e)
   \<and> ((\<forall>url opts. fst (delete nc url opts s) = Inl e) \<longrightarrow>
        fst (deleteHistory \<lparr>baseUrl = b, networkClient = nc\<rparr> userId historyId token s)
          = Inl e)"
  using client_rejects [of nc s e b]
  by (simp add: client_spy)

text \<open>C7 at a transport that rejects every call with a value that is not an \<open>Error\<close>.\<close>

theorem client_one_call_rejection_unmodified_witness:
  "(\<forall>url opts. fst (get (rejecting (Thrown (503::nat)) :: (unit, nat, unit) NetworkClient)
                       url opts ()) = Inl (Thrown 503))
   \<and> fst (getUser \<lparr>baseUrl = ''https://api.example.com'',
                    networkClient = (rejecting (Thrown (503::nat)) :: (unit, nat, unit) NetworkClient)\<rparr>
           ''user-123'' ''token-abc'' ()) = Inl (Thrown 503)
   \<and> length (fst (snd (getUser \<lparr>baseUrl = ''https://api.example.com'',
                    networkClient = spy (rejecting (Thrown (503::nat)) :: (unit, nat, unit) NetworkClient)\<rparr>
           ''user-123'' ''token-abc'' ([], ())))) = 1"
  using client_one_call_rejection_unmodified
    [of "''https://api.example.com''" "rejecting (Thrown (503::nat)) :: (unit, nat, unit) NetworkClient"
        "''user-123''" "''token-abc''" "()" "''{}''" "''hist-456''" "Thrown 503"]
  by (simp add: rejecting_def)

text \<open>
  C9: when the transport's \<open>get\<close> resolves with \<open>{data: r}\<close>, where \<open>r\<close> is a successful
  envelope whose user has \<open>firebase_uid\<close> \<open>user-123\<close>, \<open>getUser('user-123', 'token')\<close>
  resolves with \<open>r\<close> itself: \<open>success\<close> is true and \<open>data.firebase_uid\<close> is \<open>user-123\<close>.
\<close>

theorem getUser_returns_envelope:
  fixes nc :: "('s, 'x, User BaseResponse) NetworkClient"
  assumes "\<forall>url opts. fst (get nc url opts s) = Inr \<lparr>response_data = r\<rparr>"
    and "success r"
    and "BaseResponse.data r = Some u"
    and "firebase_uid u = ''user-123''"
  shows "fst (getUser \<lparr>baseUrl = b, networkClient = nc\<rparr> ''user-123'' ''token'' s) = Inr r
    \<and> (case fst (getUser \<lparr>baseUrl = b, networkClient = nc\<rparr> ''user-123'' ''token'' s) of
         Inl e \<Rightarrow> False
       | Inr result \<Rightarrow>
           success result
           \<and> map_option firebase_uid (BaseResponse.data result) = Some ''user-123'')"
  using assms client_resolves(1) [of nc s r b "''user-123''" "''token''"]
  by simp

text \<open>C9 at the mocked transport and the user of the client's test.\<close>

theorem getUser_returns_envelope_witness:
  "(let userData = \<lparr>success = True,
                     data = Some \<lparr>firebase_uid = ''user-123'', email = ''test@example.com'',
                                  display_name = ''Test'', created_at = None,
                                  updated_at = None\<rparr>,
                     error = None\<rparr>;
        client = \<lparr>baseUrl = ''https://api.example.com'',
                   networkClient = (createMockNetworkClient userData
                                      :: (call list, unit, User BaseResponse) NetworkClient)\<rparr>
    in success userData
     \<and> fst (getUser client ''user-123'' ''token'' []) = Inr userData)"
  using getUser_returns_envelope
    [of "createMockNetworkClient
           \<lparr>success = True,
            data = Some \<lparr>firebase_uid = ''user-123'', email = ''test@example.com'',
                         display_name = ''Test'', created_at = None, updated_at = None\<rparr>,
            error = None\<rparr> :: (call list, unit, User BaseResponse) NetworkClient"
        "[]" _ _ "''https://api.example.com''"]
  by (simp add: Let_def)


section \<open>The query hooks\<close>

lemma fetch_all_reject:
  assumes "\<And>s. fst (f s) = Inl e"
  shows "fst (fetch n f s) = Inl e"
proof (induction n arbitrary: s)
  case 0
  show ?case using assms by simp
next
  case (Suc n)
  obtain s' where "f s = (Inl e, s')"
    using assms [of s] by (cases "f s") simp
  then show ?case using Suc.IH by simp
qed

lemma fetch_all_resolve:
  assumes "\<And>s. fst (f s) = Inr d"
  shows "fst (fetch n f s) = Inr d"
proof (cases n)
  case 0
  then show ?thesis using assms by simp
next
  case (Suc m)
  obtain s' where "f s = (Inr d, s')"
    using assms [of s] by (cases "f s") simp
  then show ?thesis using Suc by simp
qed

lemma useQuery_disabled:
  "\<not> UseQueryOptions.enabled opts \<Longrightarrow>
     useQuery opts w = (\<lparr>data = None, isLoading = False, error = None\<rparr>, w)"
  by (simp add: useQuery_def)

lemma useQuery_rejected:
  assumes "UseQueryOptions.enabled opts"
    and "fst (fetch (retry w) (queryFn opts) (network w)) = Inl e"
  shows "fst (useQuery opts w) = \<lparr>data = None, isLoading = False, error = Some e\<rparr>"
  using assms by (cases "fetch (retry w) (queryFn opts) (network w)") (simp add: useQuery_def)

lemma useQuery_resolved:
  assumes "UseQueryOptions.enabled opts"
    and "fst (fetch (retry w) (queryFn opts) (network w)) = Inr d"
  shows "fst (useQuery opts w) = \<lparr>data = Some d, isLoading = False, error = None\<rparr>"
    and "cache (snd (useQuery opts w)) (queryKey opts) =
           Some \<lparr>entry_data = d, entry_staleTime = staleTime opts, entry_gcTime = gcTime opts\<rparr>"
  using assms by (cases "fetch (retry w) (queryFn opts) (network w)"; simp add: useQuery_def)+

text \<open>What the two query functions make of an envelope.\<close>

lemma useHistories_queryFn_envelope:
  assumes "\<forall>url opts. fst (get nc url opts s) = Inr \<lparr>response_data = r\<rparr>"
  shows "fst (useHistories_queryFn \<lparr>baseUrl = b, networkClient = nc\<rparr> userId token s) =
           (case BaseResponse.data r of
              Some d \<Rightarrow> if success r then Inr d
                        else Inl (Error (or_else (BaseResponse.error r) ''Failed to fetch histories''))
            | None \<Rightarrow> Inl (Error (or_else (BaseResponse.error r) ''Failed to fetch histories'')))"
proof -
  have "fst (getHistories \<lparr>baseUrl = b, networkClient = nc\<rparr> (interpolate userId)
               (interpolate token) s) = Inr r"
    using assms by (rule client_resolves(2))
  then show ?thesis
    by (cases "getHistories \<lparr>baseUrl = b, networkClient = nc\<rparr> (interpolate userId)
                 (interpolate token) s")
       (simp add: useHistories_queryFn_def split: option.splits bool.splits)
qed

lemma useHistoriesTotal_queryFn_envelope:
  assumes "\<forall>url opts. fst (get nc url opts s) = Inr \<lparr>response_data = r\<rparr>"
  shows "fst (useHistoriesTotal_queryFn \<lparr>baseUrl = b, networkClient = nc\<rparr> s) =
           (case BaseResponse.data r of
              Some d \<Rightarrow> if success r then Inr d
                        else Inl (Error (or_else (BaseResponse.error r) ''Failed to fetch total''))
            | None \<Rightarrow> Inl (Error (or_else (BaseResponse.error r) ''Failed to fetch total'')))"
proof -
  have "fst (getHistoriesTotal \<lparr>baseUrl = b, networkClient = nc\<rparr> s) = Inr r"
    using assms by (rule client_resolves(6))
  then show ?thesis
    by (cases "getHistoriesTotal \<lparr>baseUrl = b, networkClient = nc\<rparr> s")
       (simp add: useHistoriesTotal_queryFn_def split: option.splits bool.splits)
qed

lemma useHistories_failure:
  assumes get: "\<forall>url opts s. fst (get nc url opts s) = Inr \<lparr>response_data = r\<rparr>"
    and bad: "\<not> success r \<or> BaseResponse.data r = None"
    and on: "useHistories_enabled options userId token"
  shows "fst (useHistories nc base userId token options w) =
           \<lparr>histories = [], isLoading = False,
            error = Some (or_else (BaseResponse.error r) ''Failed to fetch histories'')\<rparr>"
proof -
  let ?e = "Error (or_else (BaseResponse.error r) ''Failed to fetch histories'')"
  let ?f = "useHistories_queryFn \<lparr>baseUrl = base, networkClient = nc\<rparr> userId token"
  have "fst (?f s) = Inl ?e" for s
    using useHistories_queryFn_envelope [of nc s r base userId token] get bad
    by (auto split: option.splits)
  then have "fst (fetch (retry w) ?f (network w)) = Inl ?e"
    by (rule fetch_all_reject)
  then have "fst (useQuery
       \<lparr>queryKey = QUERY_KEYS_histories (case userId of None \<Rightarrow> [] | Some u \<Rightarrow> u),
        queryFn = ?f, enabled = True, staleTime = 5 * 60 * 1000, gcTime = 30 * 60 * 1000\<rparr> w)
     = \<lparr>data = None, isLoading = False, error = Some ?e\<rparr>"
    by (intro useQuery_rejected) simp_all
  then show ?thesis
    using on by (simp add: useHistories_def Let_def split_beta error_message_def)
qed

lemma useHistoriesTotal_failure:
  assumes get: "\<forall>url opts s. fst (get nc url opts s) = Inr \<lparr>response_data = r\<rparr>"
    and bad: "\<not> success r \<or> BaseResponse.data r = None"
    and on: "enabled_or_true options"
  shows "fst (useHistoriesTotal nc base options w) =
           \<lparr>total = 0, isLoading = False,
            error = Some (or_else (BaseResponse.error r) ''Failed to fetch total'')\<rparr>"
proof -
  let ?e = "Error (or_else (BaseResponse.error r) ''Failed to fetch total'')"
  let ?f = "useHistoriesTotal_queryFn \<lparr>baseUrl = base, networkClient = nc\<rparr>"
  have "fst (?f s) = Inl ?e" for s
    using useHistoriesTotal_queryFn_envelope [of nc s r base] get bad
    by (auto split: option.splits)
  then have "fst (fetch (retry w) ?f (network w)) = Inl ?e"
    by (rule fetch_all_reject)
  then have "fst (useQuery
       \<lparr>queryKey = QUERY_KEYS_historiesTotal,
        queryFn = ?f, enabled = True, staleTime = 5 * 60 * 1000, gcTime = 30 * 60 * 1000\<rparr> w)
     = \<lparr>data = None, isLoading = False, error = Some ?e\<rparr>"
    by (intro useQuery_rejected) simp_all
  then show ?thesis
    using on by (simp add: useHistoriesTotal_def Let_def split_beta error_message_def)
qed

lemma useHistories_success:
  assumes get: "\<forall>url opts s. fst (get nc url opts s) = Inr \<lparr>response_data = r\<rparr>"
    and ok: "success r" "BaseResponse.data r = Some d"
    and on: "useHistories_enabled options userId token"
  shows "fst (useHistories nc base userId token options w) =
           \<lparr>histories = d, isLoading = False, error = None\<rparr>"
    and "cache (snd (useHistories nc base userId token options w))
           (QUERY_KEYS_histories (case userId of None \<Rightarrow> [] | Some u \<Rightarrow> u)) =
           Some \<lparr>entry_data = d, entry_staleTime = 300000, entry_gcTime = 1800000\<rparr>"
proof -
  let ?f = "useHistories_queryFn \<lparr>baseUrl = base, networkClient = nc\<rparr> userId token"
  let ?opts = "\<lparr>queryKey = QUERY_KEYS_histories (case userId of None \<Rightarrow> [] | Some u \<Rightarrow> u),
        queryFn = ?f, enabled = True, staleTime = 5 * 60 * 1000, gcTime = 30 * 60 * 1000\<rparr>"
  have "fst (?f s) = Inr d" for s
    using useHistories_queryFn_envelope [of nc s r base userId token] get ok by simp
  then have f: "fst (fetch (retry w) (queryFn ?opts) (network w)) = Inr d"
    using fetch_all_resolve [of ?f d] by simp
  have e: "UseQueryOptions.enabled ?opts" by simp
  show "fst (useHistories nc base userId token options w) =
           \<lparr>histories = d, isLoading = False, error = None\<rparr>"
    using useQuery_resolved(1) [OF e f] on
    by (simp add: useHistories_def Let_def split_beta error_message_def)
  show "cache (snd (useHistories nc base userId token options w))
           (QUERY_KEYS_histories (case userId of None \<Rightarrow> [] | Some u \<Rightarrow> u)) =
           Some \<lparr>entry_data = d, entry_staleTime = 300000, entry_gcTime = 1800000\<rparr>"
    using useQuery_resolved(2) [OF e f] on
    by (simp add: useHistories_def Let_def split_beta)
qed

lemma useHistoriesTotal_success:
  assumes get: "\<forall>url opts s. fst (get nc url opts s) = Inr \<lparr>response_data = r\<rparr>"
    and ok: "success r" "BaseResponse.data r = Some d"
    and on: "enabled_or_true options"
  shows "fst (useHistoriesTotal nc base options w) =
           \<lparr>total = HistoryTotalResponse.total d, isLoading = False, error = None\<rparr>"
    and "cache (snd (useHistoriesTotal nc base options w)) QUERY_KEYS_historiesTotal =
           Some \<lparr>entry_data = d, entry_staleTime = 300000, entry_gcTime = 1800000\<rparr>"
proof -
  let ?f = "useHistoriesTotal_queryFn \<lparr>baseUrl = base, networkClient = nc\<rparr>"
  let ?opts = "\<lparr>queryKey = QUERY_KEYS_historiesTotal,
        queryFn = ?f, enabled = True, staleTime = 5 * 60 * 1000, gcTime = 30 * 60 * 1000\<rparr>"
  have "fst (?f s) = Inr d" for s
    using useHistoriesTotal_queryFn_envelope [of nc s r base] get ok by simp
  then have f: "fst (fetch (retry w) (queryFn ?opts) (network w)) = Inr d"
    using fetch_all_resolve [of ?f d] by simp
  have e: "UseQueryOptions.enabled ?opts" by simp
  show "fst (useHistoriesTotal nc base options w) =
           \<lparr>total = HistoryTotalResponse.total d, isLoading = False, error = None\<rparr>"
    using useQuery_resolved(1) [OF e f] on
    by (simp add: useHistoriesTotal_def Let_def split_beta error_message_def)
  show "cache (snd (useHistoriesTotal nc base options w)) QUERY_KEYS_historiesTotal =
           Some \<lparr>entry_data = d, entry_staleTime = 300000, entry_gcTime = 1800000\<rparr>"
    using useQuery_resolved(2) [OF e f] on
    by (simp add: useHistoriesTotal_def Let_def split_beta)
qed

lemma useHistories_copies_agree: "useHistories_defaults = useHistories"
  by (intro ext)
     (simp add: useHistories_defaults_def useHistories_def DEFAULT_STALE_TIME_def
        DEFAULT_GC_TIME_def)

lemma useHistories_disabled:
  "\<not> useHistories_enabled options userId token \<Longrightarrow>
     useHistories nc base userId token options w =
       (\<lparr>histories = [], isLoading = False, error = None\<rparr>, w)"
  by (simp add: useHistories_def Let_def useQuery_disabled error_message_def)

lemma useHistoriesTotal_disabled:
  "\<not> enabled_or_true options \<Longrightarrow>
     useHistoriesTotal nc base options w = (\<lparr>total = 0, isLoading = False, error = None\<rparr>, w)"
  by (simp add: useHistoriesTotal_def Let_def useQuery_disabled error_message_def)

lemma useHistories_enabled_iff:
  "useHistories_enabled options userId token \<longleftrightarrow>
     (options = None \<or> (\<exists>opts. options = Some opts \<and> HookOptions.enabled opts \<noteq> Some False))
     \<and> (\<exists>u. userId = Some u \<and> u \<noteq> [])
     \<and> (\<exists>t. token = Some t \<and> t \<noteq> [])"
  by (auto simp: useHistories_enabled_def enabled_or_true_def truthy_def split: option.splits)

text \<open>The calls a spied transport sees from an enabled query.\<close>

lemma fetch_spied:
  assumes "\<And>calls s. fst (snd (f (calls, s))) = calls @ [c]"
  shows "\<exists>more. fst (snd (fetch n f (calls, s))) = calls @ c # more"
proof (induction n arbitrary: calls s)
  case 0
  show ?case using assms by simp
next
  case (Suc n)
  obtain r calls' s' where f: "f (calls, s) = (r, (calls', s'))"
    by (metis prod.exhaust)
  with assms [of calls s] have c: "calls' = calls @ [c]" by simp
  show ?case
  proof (cases r)
    case (Inr d)
    with f c show ?thesis by simp
  next
    case (Inl e)
    from Suc.IH [of calls' s'] obtain more
      where "fst (snd (fetch n f (calls', s'))) = calls' @ c # more" by blast
    with f c Inl show ?thesis by simp
  qed
qed

lemma useHistories_queryFn_spied:
  "fst (snd (useHistories_queryFn \<lparr>baseUrl = b, networkClient = spy nc\<rparr> userId token (calls, s)))
     = calls @ [(GET, buildUrl b (''/api/v1/users/'' @ interpolate userId @ ''/histories''),
                 \<lparr>headers = createAuthHeaders (interpolate token), body = None\<rparr>)]"
proof -
  have e: "snd (useHistories_queryFn client userId token st) =
          snd (getHistories client (interpolate userId) (interpolate token) st)" for client st
    by (cases "getHistories client (interpolate userId) (interpolate token) st")
       (simp add: useHistories_queryFn_def split: sum.splits option.splits bool.splits)
  show ?thesis by (simp only: e getHistories_spy)
qed

lemma useQuery_network:
  assumes "UseQueryOptions.enabled opts"
  shows "network (snd (useQuery opts w)) = snd (fetch (retry w) (queryFn opts) (network w))"
proof (cases "fetch (retry w) (queryFn opts) (network w)")
  case (Pair r s')
  then show ?thesis using assms by (cases r) (simp_all add: useQuery_def)
qed

lemma snd_useHistories:
  "snd (useHistories nc base userId token options w) =
     snd (useQuery
       \<lparr>queryKey = QUERY_KEYS_histories (case userId of None \<Rightarrow> [] | Some u \<Rightarrow> u),
        queryFn = useHistories_queryFn \<lparr>baseUrl = base, networkClient = nc\<rparr> userId token,
        enabled = useHistories_enabled options userId token,
        staleTime = 5 * 60 * 1000, gcTime = 30 * 60 * 1000\<rparr> w)"
  by (simp add: useHistories_def Let_def split_beta)

lemma useHistories_enabled_spied:
  assumes "useHistories_enabled options userId token"
    and "network w = (calls, s)"
  shows "\<exists>more. fst (network (snd (useHistories (spy nc) base userId token options w))) =
           calls @ (GET, buildUrl base (''/api/v1/users/'' @ interpolate userId @ ''/histories''),
                    \<lparr>headers = createAuthHeaders (interpolate token), body = None\<rparr>) # more"
proof -
  let ?f = "useHistories_queryFn \<lparr>baseUrl = base, networkClient = spy nc\<rparr> userId token"
  let ?c = "(GET, buildUrl base (''/api/v1/users/'' @ interpolate userId @ ''/histories''),
             \<lparr>headers = createAuthHeaders (interpolate token), body = None\<rparr>)"
  have "\<And>calls s. fst (snd (?f (calls, s))) = calls @ [?c]"
    by (rule useHistories_queryFn_spied)
  then obtain more where m: "fst (snd (fetch (retry w) ?f (calls, s))) = calls @ ?c # more"
    using fetch_spied [of ?f ?c "retry w" calls s] by blast
  have "network (snd (useHistories (spy nc) base userId token options w)) =
          snd (fetch (retry w) ?f (calls, s))"
    unfolding snd_useHistories using assms by (subst useQuery_network) simp_all
  with m show ?thesis by (intro exI [of _ more]) (simp only:)
qed

section \<open>The mutation hook\<close>

lemma invalidated_invalidate:
  "invalidated (invalidate userId w) =
     invalidated w
     @ (case userId of None \<Rightarrow> [] | Some u \<Rightarrow> if u = [] then [] else [[''starter'', ''histories'', u]])
     @ [[''starter'', ''histories'', ''total'']]"
  by (simp add: invalidate_def invalidateQueries_def QUERY_KEYS_histories_def
        QUERY_KEYS_historiesTotal_def Let_def split: option.splits)

lemma invalidated_onSuccess:
  "invalidated (onSuccess userId r w) =
     invalidated w
     @ (if success r
        then (case userId of None \<Rightarrow> []
              | Some u \<Rightarrow> if u = [] then [] else [[''starter'', ''histories'', u]])
             @ [[''starter'', ''histories'', ''total'']]
        else [])"
  by (simp add: onSuccess_def invalidated_invalidate)

lemma mutateAsync_resolved:
  assumes "fst (mutationFn (network w)) = Inr r"
  shows "mutateAsync mutationFn f w =
           (Inr r, None, f r (w\<lparr>network := snd (mutationFn (network w))\<rparr>))"
  using assms by (cases "mutationFn (network w)") (simp add: mutateAsync_def)

lemma mutateAsync_rejected:
  assumes "fst (mutationFn (network w)) = Inl e"
  shows "mutateAsync mutationFn f w =
           (Inl e, Some e, w\<lparr>network := snd (mutationFn (network w))\<rparr>)"
  using assms by (cases "mutationFn (network w)") (simp add: mutateAsync_def)

lemma createHistory_mutation_resolved:
  assumes "\<forall>url opts. fst (post nc url opts (network w)) = Inr \<lparr>response_data = r\<rparr>"
  shows "fst (useHistoryMutations_createHistory nc base userId token json (m, w)) = Inr r"
    and "fst (snd (useHistoryMutations_createHistory nc base userId token json (m, w))) =
           m\<lparr>createMutation_error := None\<rparr>"
    and "invalidated (snd (snd (useHistoryMutations_createHistory nc base userId token json (m, w))))
           = invalidated (onSuccess userId r w)"
proof -
  let ?fn = "createHistory \<lparr>baseUrl = base, networkClient = nc\<rparr> (interpolate userId) json
               (interpolate token)"
  have "fst (?fn (network w)) = Inr r"
    using assms by (rule client_resolves(3))
  then have "mutateAsync ?fn (onSuccess userId) w =
           (Inr r, None, onSuccess userId r (w\<lparr>network := snd (?fn (network w))\<rparr>))"
    by (rule mutateAsync_resolved)
  then show
    "fst (useHistoryMutations_createHistory nc base userId token json (m, w)) = Inr r"
    "fst (snd (useHistoryMutations_createHistory nc base userId token json (m, w))) =
           m\<lparr>createMutation_error := None\<rparr>"
    "invalidated (snd (snd (useHistoryMutations_createHistory nc base userId token json (m, w))))
           = invalidated (onSuccess userId r w)"
    by (simp_all add: useHistoryMutations_createHistory_def Let_def invalidated_onSuccess)
qed

lemma updateHistory_mutation_resolved:
  assumes "\<forall>url opts. fst (put nc url opts (network w)) = Inr \<lparr>response_data = r\<rparr>"
  shows "fst (useHistoryMutations_updateHistory nc base userId token historyId json (m, w)) = Inr r"
    and "fst (snd (useHistoryMutations_updateHistory nc base userId token historyId json (m, w))) =
           m\<lparr>updateMutation_error := None\<rparr>"
    and "invalidated (snd (snd (useHistoryMutations_updateHistory nc base userId token historyId
                                  json (m, w))))
           = invalidated (onSuccess userId r w)"
proof -
  let ?fn = "updateHistory \<lparr>baseUrl = base, networkClient = nc\<rparr> (interpolate userId) historyId
               json (interpolate token)"
  have "fst (?fn (network w)) = Inr r"
    using assms by (rule client_resolves(4))
  then have "mutateAsync ?fn (onSuccess userId) w =
           (Inr r, None, onSuccess userId r (w\<lparr>network := snd (?fn (network w))\<rparr>))"
    by (rule mutateAsync_resolved)
  then show
    "fst (useHistoryMutations_updateHistory nc base userId token historyId json (m, w)) = Inr r"
    "fst (snd (useHistoryMutations_updateHistory nc base userId token historyId json (m, w))) =
           m\<lparr>updateMutation_error := None\<rparr>"
    "invalidated (snd (snd (useHistoryMutations_updateHistory nc base userId token historyId
                                  json (m, w))))
           = invalidated (onSuccess userId r w)"
    by (simp_all add: useHistoryMutations_updateHistory_def Let_def invalidated_onSuccess)
qed

lemma deleteHistory_mutation_resolved:
  assumes "\<forall>url opts. fst (delete nc url opts (network w)) = Inr \<lparr>response_data = r\<rparr>"
  shows "fst (useHistoryMutations_deleteHistory nc base userId token historyId (m, w)) = Inr r"
    and "fst (snd (useHistoryMutations_deleteHistory nc base userId token historyId (m, w))) =
           m\<lparr>deleteMutation_error := None\<rparr>"
    and "invalidated (snd (snd (useHistoryMutations_deleteHistory nc base userId token historyId
                                  (m, w))))
           = invalidated (onSuccess userId r w)"
proof -
  let ?fn = "deleteHistory \<lparr>baseUrl = base, networkClient = nc\<rparr> (interpolate userId) historyId
               (interpolate token)"
  have "fst (?fn (network w)) = Inr r"
    using assms by (rule client_resolves(5))
  then have "mutateAsync ?fn (onSuccess userId) w =
           (Inr r, None, onSuccess userId r (w\<lparr>network := snd (?fn (network w))\<rparr>))"
    by (rule mutateAsync_resolved)
  then show
    "fst (useHistoryMutations_deleteHistory nc base userId token historyId (m, w)) = Inr r"
    "fst (snd (useHistoryMutations_deleteHistory nc base userId token historyId (m, w))) =
           m\<lparr>deleteMutation_error := None\<rparr>"
    "invalidated (snd (snd (useHistoryMutations_deleteHistory nc base userId token historyId
                                  (m, w))))
           = invalidated (onSuccess userId r w)"
    by (simp_all add: useHistoryMutations_deleteHistory_def Let_def invalidated_onSuccess)
qed

lemma no_errors_cleared [simp]:
  "useHistoryMutations_error (no_errors\<lparr>createMutation_error := None\<rparr>) = None"
  "useHistoryMutations_error (no_errors\<lparr>updateMutation_error := None\<rparr>) = None"
  "useHistoryMutations_error (no_errors\<lparr>deleteMutation_error := None\<rparr>) = None"
  by (simp_all add: useHistoryMutations_error_def nullish_or_def no_errors_def error_message_def)

text \<open>
  A mutation whose call rejects holds the rejection; the hook shows its message when it
  is an \<open>Error\<close>, and nothing is invalidated.
\<close>

lemma createHistory_mutation_rejected:
  assumes "\<forall>url opts. fst (post nc url opts (network w)) = Inl e"
  shows "fst (useHistoryMutations_createHistory nc base userId token json (no_errors, w)) = Inl e"
    and "useHistoryMutations_error
           (fst (snd (useHistoryMutations_createHistory nc base userId token json (no_errors, w))))
         = error_message (Some e)"
    and "invalidated (snd (snd (useHistoryMutations_createHistory nc base userId token json
                                  (no_errors, w)))) = invalidated w"
proof -
  let ?fn = "createHistory \<lparr>baseUrl = base, networkClient = nc\<rparr> (interpolate userId) json
               (interpolate token)"
  have "fst (?fn (network w)) = Inl e"
    using assms by (rule client_rejects(3))
  then have "mutateAsync ?fn (onSuccess userId) w =
           (Inl e, Some e, w\<lparr>network := snd (?fn (network w))\<rparr>)"
    by (rule mutateAsync_rejected)
  then show
    "fst (useHistoryMutations_createHistory nc base userId token json (no_errors, w)) = Inl e"
    "useHistoryMutations_error
           (fst (snd (useHistoryMutations_createHistory nc base userId token json (no_errors, w))))
         = error_message (Some e)"
    "invalidated (snd (snd (useHistoryMutations_createHistory nc base userId token json
                                  (no_errors, w)))) = invalidated w"
    by (simp_all add: useHistoryMutations_createHistory_def Let_def
          useHistoryMutations_error_def nullish_or_def no_errors_def error_message_def
          split: thrown.splits)
qed

lemma clearError_clears: "useHistoryMutations_error (clearError m) = None"
  by (simp add: clearError_def useHistoryMutations_error_def nullish_or_def error_message_def)

text \<open>
  A mutation that was rejected with \<open>null\<close> or \<open>undefined\<close> is passed over by \<open>??\<close>:
  the hook shows the error of the next mutation that holds one.
\<close>

lemma nullish_error_passed_over:
  "useHistoryMutations_error
     \<lparr>createMutation_error = Some Nullish, updateMutation_error = Some (Error msg),
      deleteMutation_error = e\<rparr> = Some msg"
  by (simp add: useHistoryMutations_error_def nullish_or_def error_message_def)

section \<open>Envelopes without data, envelopes that failed\<close>

text \<open>
  C1, as the spec states it: when the transport returns an envelope with \<open>success: true\<close>
  and no \<open>data\<close>, the list hook and the total hook default to the empty list and to zero
  and do not treat the response as an error. Both hooks do report an error: the query
  function throws when \<open>data\<close> is absent, whatever \<open>success\<close> says.
\<close>

theorem missing_data_counterexample:
  "UseHistoriesReturn.error (fst (useHistories
      (createMockNetworkClient \<lparr>success = True, data = None, error = None\<rparr>
         :: (call list, unit, unit list BaseResponse) NetworkClient)
      ''https://api.example.com'' (Some ''user-123'') (Some ''token'') None
      (initial_world []))) = Some ''Failed to fetch histories''
   \<and> UseHistoriesTotalReturn.error (fst (useHistoriesTotal
      (createMockNetworkClient \<lparr>success = True, data = None, error = None\<rparr>
         :: (call list, unit, HistoryTotalResponse BaseResponse) NetworkClient)
      ''https://api.example.com'' None (initial_world []))) = Some ''Failed to fetch total''"
  by (simp add: useHistories_def useHistories_enabled_def useHistoriesTotal_def
        enabled_or_true_def truthy_def useQuery_def initial_world_def
        useHistories_queryFn_def useHistoriesTotal_queryFn_def getHistories_def
        getHistoriesTotal_def Let_def error_message_def or_else_def)

text \<open>
  C1, amended: for the list hook and the total hook, when the query is enabled and the
  transport returns an envelope with \<open>success: true\<close> and no \<open>data\<close>, the response is
  treated as an error: \<open>error\<close> is the envelope's own message when it has a non-empty
  one, the hook's fallback message otherwise, and the hook shows the empty list, or zero.
  The mutation functions treat no envelope as a failure, with or without \<open>data\<close> and
  \<open>success\<close>: they resolve with the envelope they received, and the hook's \<open>error\<close>
  stays \<open>null\<close>.
\<close>

theorem missing_data_is_an_error:
  fixes nc1 :: "('s1, 'x1, 'h list BaseResponse) NetworkClient"
    and nc2 :: "('s2, 'x2, HistoryTotalResponse BaseResponse) NetworkClient"
    and nc3 :: "('s3, 'x3, 'a BaseResponse) NetworkClient"
    and w3 :: "('s3, 'd) World"
  assumes "\<forall>url opts s. fst (get nc1 url opts s) = Inr \<lparr>response_data = r1\<rparr>"
    and "success r1" and "BaseResponse.data r1 = None"
    and "useHistories_enabled options1 userId token"
    and "\<forall>url opts s. fst (get nc2 url opts s) = Inr \<lparr>response_data = r2\<rparr>"
    and "success r2" and "BaseResponse.data r2 = None"
    and "enabled_or_true options2"
    and "\<forall>url opts. fst (post nc3 url opts (network w3)) = Inr \<lparr>response_data = r3\<rparr>"
    and "\<forall>url opts. fst (put nc3 url opts (network w3)) = Inr \<lparr>response_data = r3\<rparr>"
    and "\<forall>url opts. fst (delete nc3 url opts (network w3)) = Inr \<lparr>response_data = r3\<rparr>"
  shows
    "fst (useHistories nc1 base1 userId token options1 w1) =
       \<lparr>histories = [], isLoading = False,
        error = Some (or_else (BaseResponse.error r1) ''Failed to fetch histories'')\<rparr>
   \<and> fst (useHistoriesTotal nc2 base2 options2 w2) =
       \<lparr>total = 0, isLoading = False,
        error = Some (or_else (BaseResponse.error r2) ''Failed to fetch total'')\<rparr>
   \<and> fst (useHistoryMutations_createHistory nc3 base3 userId3 token3 json (no_errors, w3)) = Inr r3
   \<and> useHistoryMutations_error (fst (snd (useHistoryMutations_createHistory nc3 base3 userId3
         token3 json (no_errors, w3)))) = None
   \<and> fst (useHistoryMutations_updateHistory nc3 base3 userId3 token3 historyId json
         (no_errors, w3)) = Inr r3
   \<and> useHistoryMutations_error (fst (snd (useHistoryMutations_updateHistory nc3 base3 userId3
         token3 historyId json (no_errors, w3)))) = None
   \<and> fst (useHistoryMutations_deleteHistory nc3 base3 userId3 token3 historyId
         (no_errors, w3)) = Inr r3
   \<and> useHistoryMutations_error (fst (snd (useHistoryMutations_deleteHistory nc3 base3 userId3
         token3 historyId (no_errors, w3)))) = None"
proof -
  have "fst (useHistories nc1 base1 userId token options1 w1) =
       \<lparr>histories = [], isLoading = False,
        error = Some (or_else (BaseResponse.error r1) ''Failed to fetch histories'')\<rparr>"
    using assms(1,3,4) by (intro useHistories_failure) simp_all
  moreover have "fst (useHistoriesTotal nc2 base2 options2 w2) =
       \<lparr>total = 0, isLoading = False,
        error = Some (or_else (BaseResponse.error r2) ''Failed to fetch total'')\<rparr>"
    using assms(5,7,8) by (intro useHistoriesTotal_failure) simp_all
  ultimately show ?thesis
    using createHistory_mutation_resolved(1,2) [OF assms(9)]
      updateHistory_mutation_resolved(1,2) [OF assms(10)]
      deleteHistory_mutation_resolved(1,2) [OF assms(11)]
    by simp
qed

text \<open>C1, amended, at mocked transports.\<close>

theorem missing_data_is_an_error_witness:
  "fst (useHistories
      (createMockNetworkClient \<lparr>success = True, data = None, error = Some ''no rows''\<rparr>
         :: (call list, unit, unit list BaseResponse) NetworkClient)
      ''https://api.example.com'' (Some ''user-123'') (Some ''token'') None
      (initial_world [])) =
     \<lparr>histories = [], isLoading = False, error = Some ''no rows''\<rparr>
   \<and> fst (useHistoriesTotal
      (createMockNetworkClient \<lparr>success = True, data = None, error = None\<rparr>
         :: (call list, unit, HistoryTotalResponse BaseResponse) NetworkClient)
      ''https://api.example.com'' None (initial_world [])) =
     \<lparr>total = 0, isLoading = False, error = Some ''Failed to fetch total''\<rparr>
   \<and> fst (useHistoryMutations_deleteHistory
      (createMockNetworkClient \<lparr>success = False, data = None, error = None\<rparr>
         :: (call list, unit, unit BaseResponse) NetworkClient)
      ''https://api.example.com'' (Some ''user-123'') (Some ''token'') ''hist-456''
      (no_errors, initial_world [] :: (call list, unit) World)) =
     Inr \<lparr>success = False, data = None, error = None\<rparr>"
  using missing_data_is_an_error
    [where ?nc1.0 = "createMockNetworkClient \<lparr>success = True, data = None, error = Some ''no rows''\<rparr>
                   :: (call list, unit, unit list BaseResponse) NetworkClient"
       and ?r1.0 = "\<lparr>success = True, data = None, error = Some ''no rows''\<rparr>"
       and ?options1.0 = None and userId = "Some ''user-123''" and token = "Some ''token''"
       and ?nc2.0 = "createMockNetworkClient \<lparr>success = True, data = None, error = None\<rparr>
                   :: (call list, unit, HistoryTotalResponse BaseResponse) NetworkClient"
       and ?r2.0 = "\<lparr>success = True, data = None, error = None\<rparr>"
       and ?options2.0 = None
       and ?nc3.0 = "createMockNetworkClient \<lparr>success = False, data = None, error = None\<rparr>
                   :: (call list, unit, unit BaseResponse) NetworkClient"
       and ?r3.0 = "\<lparr>success = False, data = None, error = None\<rparr>"
       and ?w3.0 = "initial_world [] :: (call list, unit) World"
       and ?base1.0 = "''https://api.example.com''" and ?w1.0 = "initial_world []"
       and ?base2.0 = "''https://api.example.com''" and ?w2.0 = "initial_world []"
       and ?base3.0 = "''https://api.example.com''" and ?userId3.0 = "Some ''user-123''"
       and ?token3.0 = "Some ''token''" and historyId = "''hist-456''" and json = "''{}''"]
  by (simp add: useHistories_enabled_def enabled_or_true_def truthy_def or_else_def)

text \<open>
  C2, as the spec states it: for every adapter, the mutation functions among them, an
  envelope with \<open>success: false\<close> makes the adapter's \<open>error\<close> a non-null string. After
  \<open>createHistory\<close> has received such an envelope, the mutation hook's \<open>error\<close> is
  \<open>null\<close>.
\<close>

theorem success_false_counterexample:
  "useHistoryMutations_error (fst (snd (useHistoryMutations_createHistory
      (createMockNetworkClient \<lparr>success = False, data = None, error = Some ''boom''\<rparr>
         :: (call list, unit, unit BaseResponse) NetworkClient)
      ''https://api.example.com'' (Some ''user-123'') (Some ''token'') ''{}''
      (no_errors, initial_world [] :: (call list, unit) World)))) = None"
  by (simp add: useHistoryMutations_createHistory_def mutateAsync_def createHistory_def
        initial_world_def Let_def useHistoryMutations_error_def nullish_or_def no_errors_def
        error_message_def)

text \<open>
  C2, amended: for the list hook and the total hook, when the query is enabled and the
  transport resolves with an envelope whose \<open>success\<close> is false, \<open>error\<close> becomes a
  non-null string, the envelope's message when it has a non-empty one and the hook's
  fallback otherwise, and the data stays at its default (empty list, zero). The mutation
  functions \<open>createHistory\<close>, \<open>updateHistory\<close> and \<open>deleteHistory\<close> resolve with that
  envelope, for the caller to read its \<open>success\<close>, and leave the hook's \<open>error\<close> at
  \<open>null\<close>.
\<close>

theorem success_false_surfaces:
  fixes nc1 :: "('s1, 'x1, 'h list BaseResponse) NetworkClient"
    and nc2 :: "('s2, 'x2, HistoryTotalResponse BaseResponse) NetworkClient"
    and nc3 :: "('s3, 'x3, 'a BaseResponse) NetworkClient"
    and w3 :: "('s3, 'd) World"
  assumes "\<forall>url opts s. fst (get nc1 url opts s) = Inr \<lparr>response_data = r1\<rparr>"
    and "\<not> success r1"
    and "useHistories_enabled options1 userId token"
    and "\<forall>url opts s. fst (get nc2 url opts s) = Inr \<lparr>response_data = r2\<rparr>"
    and "\<not> success r2"
    and "enabled_or_true options2"
    and "\<forall>url opts. fst (post nc3 url opts (network w3)) = Inr \<lparr>response_data = r3\<rparr>"
    and "\<forall>url opts. fst (put nc3 url opts (network w3)) = Inr \<lparr>response_data = r3\<rparr>"
    and "\<forall>url opts. fst (delete nc3 url opts (network w3)) = Inr \<lparr>response_data = r3\<rparr>"
    and "\<not> success r3"
  shows
    "fst (useHistories nc1 base1 userId token options1 w1) =
       \<lparr>histories = [], isLoading = False,
        error = Some (or_else (BaseResponse.error r1) ''Failed to fetch histories'')\<rparr>
   \<and> fst (useHistoriesTotal nc2 base2 options2 w2) =
       \<lparr>total = 0, isLoading = False,
        error = Some (or_else (BaseResponse.error r2) ''Failed to fetch total'')\<rparr>
   \<and> fst (useHistoryMutations_createHistory nc3 base3 userId3 token3 json (no_errors, w3)) = Inr r3
   \<and> useHistoryMutations_error (fst (snd (useHistoryMutations_createHistory nc3 base3 userId3
         token3 json (no_errors, w3)))) = None
   \<and> fst (useHistoryMutations_updateHistory nc3 base3 userId3 token3 historyId json
         (no_errors, w3)) = Inr r3
   \<and> useHistoryMutations_error (fst (snd (useHistoryMutations_updateHistory nc3 base3 userId3
         token3 historyId json (no_errors, w3)))) = None
   \<and> fst (useHistoryMutations_deleteHistory nc3 base3 userId3 token3 historyId
         (no_errors, w3)) = Inr r3
   \<and> useHistoryMutations_error (fst (snd (useHistoryMutations_deleteHistory nc3 base3 userId3
         token3 historyId (no_errors, w3)))) = None"
proof -
  have "fst (useHistories nc1 base1 userId token options1 w1) =
       \<lparr>histories = [], isLoading = False,
        error = Some (or_else (BaseResponse.error r1) ''Failed to fetch histories'')\<rparr>"
    using assms(1,2,3) by (intro useHistories_failure) simp_all
  moreover have "fst (useHistoriesTotal nc2 base2 options2 w2) =
       \<lparr>total = 0, isLoading = False,
        error = Some (or_else (BaseResponse.error r2) ''Failed to fetch total'')\<rparr>"
    using assms(4,5,6) by (intro useHistoriesTotal_failure) simp_all
  ultimately show ?thesis
    using createHistory_mutation_resolved(1,2) [OF assms(7)]
      updateHistory_mutation_resolved(1,2) [OF assms(8)]
      deleteHistory_mutation_resolved(1,2) [OF assms(9)]
    by simp
qed

text \<open>C2, amended, at mocked transports.\<close>

theorem success_false_surfaces_witness:
  "fst (useHistories
      (createMockNetworkClient \<lparr>success = False, data = None, error = Some ''boom''\<rparr>
         :: (call list, unit, unit list BaseResponse) NetworkClient)
      ''https://api.example.com'' (Some ''user-123'') (Some ''token'') None
      (initial_world [])) =
     \<lparr>histories = [], isLoading = False, error = Some ''boom''\<rparr>
   \<and> fst (useHistoriesTotal
      (createMockNetworkClient \<lparr>success = False, data = None, error = None\<rparr>
         :: (call list, unit, HistoryTotalResponse BaseResponse) NetworkClient)
      ''https://api.example.com'' None (initial_world [])) =
     \<lparr>total = 0, isLoading = False, error = Some ''Failed to fetch total''\<rparr>
   \<and> fst (useHistoryMutations_updateHistory
      (createMockNetworkClient \<lparr>success = False, data = None, error = Some ''boom''\<rparr>
         :: (call list, unit, unit BaseResponse) NetworkClient)
      ''https://api.example.com'' (Some ''user-123'') (Some ''token'') ''hist-456'' ''{}''
      (no_errors, initial_world [] :: (call list, unit) World)) =
     Inr \<lparr>success = False, data = None, error = Some ''boom''\<rparr>"
  using success_false_surfaces
    [where ?nc1.0 = "createMockNetworkClient \<lparr>success = False, data = None, error = Some ''boom''\<rparr>
                   :: (call list, unit, unit list BaseResponse) NetworkClient"
       and ?r1.0 = "\<lparr>success = False, data = None, error = Some ''boom''\<rparr>"
       and ?options1.0 = None and userId = "Some ''user-123''" and token = "Some ''token''"
       and ?nc2.0 = "createMockNetworkClient \<lparr>success = False, data = None, error = None\<rparr>
                   :: (call list, unit, HistoryTotalResponse BaseResponse) NetworkClient"
       and ?r2.0 = "\<lparr>success = False, data = None, error = None\<rparr>"
       and ?options2.0 = None
       and ?nc3.0 = "createMockNetworkClient \<lparr>success = False, data = None, error = Some ''boom''\<rparr>
                   :: (call list, unit, unit BaseResponse) NetworkClient"
       and ?r3.0 = "\<lparr>success = False, data = None, error = Some ''boom''\<rparr>"
       and ?w3.0 = "initial_world [] :: (call list, unit) World"
       and ?base1.0 = "''https://api.example.com''" and ?w1.0 = "initial_world []"
       and ?base2.0 = "''https://api.example.com''" and ?w2.0 = "initial_world []"
       and ?base3.0 = "''https://api.example.com''" and ?userId3.0 = "Some ''user-123''"
       and ?token3.0 = "Some ''token''" and historyId = "''hist-456''" and json = "''{}''"]
  by (simp add: useHistories_enabled_def enabled_or_true_def truthy_def or_else_def)

section \<open>Invalidation\<close>

text \<open>
  The invalidations are read off \<open>invalidated\<close>, the sequence of the calls made to
  \<open>invalidateQueries\<close>, and not counted by key: for the user id \<open>total\<close> the user's key
  and the total key are the same list.
\<close>

lemma histories_key_of_total: "QUERY_KEYS_histories ''total'' = QUERY_KEYS_historiesTotal"
  by (simp add: QUERY_KEYS_histories_def QUERY_KEYS_historiesTotal_def)

text \<open>
  C4, as the spec states it: for every non-null \<open>userId\<close>, a mutation that resolves with
  \<open>success: true\<close> invalidates the user's list key once and the total key once. The empty
  string is not \<open>null\<close>, yet \<open>if (userId)\<close> takes it for absent: only the total key is
  invalidated.
\<close>

theorem empty_user_counterexample:
  "invalidated (snd (snd (useHistoryMutations_createHistory
      (createMockNetworkClient \<lparr>success = True, data = None, error = None\<rparr>
         :: (call list, unit, unit BaseResponse) NetworkClient)
      ''https://api.example.com'' (Some '''') (Some ''token'') ''{}''
      (no_errors, initial_world [] :: (call list, unit) World)))) =
     [[''starter'', ''histories'', ''total'']]"
  by (simp add: useHistoryMutations_createHistory_def mutateAsync_def createHistory_def
        initial_world_def Let_def onSuccess_def invalidate_def invalidateQueries_def
        QUERY_KEYS_historiesTotal_def)

text \<open>
  C4, amended: for every mutation (\<open>createHistory\<close>, \<open>updateHistory\<close>, \<open>deleteHistory\<close>)
  performed with a \<open>userId\<close> that is neither \<open>null\<close> nor the empty string, if the
  transport resolves with an envelope whose \<open>success\<close> is true, \<open>invalidateQueries\<close> is
  called exactly twice, once with \<open>['starter', 'histories', userId]\<close> and then once with
  \<open>['starter', 'histories', 'total']\<close>; it is not called when \<open>success\<close> is false.
\<close>

theorem mutations_invalidate:
  fixes nc :: "('s, 'x, 'a BaseResponse) NetworkClient" and w :: "('s, 'd) World"
  assumes "u \<noteq> []"
    and "\<forall>url opts. fst (post nc url opts (network w)) = Inr \<lparr>response_data = r\<rparr>"
    and "\<forall>url opts. fst (put nc url opts (network w)) = Inr \<lparr>response_data = r\<rparr>"
    and "\<forall>url opts. fst (delete nc url opts (network w)) = Inr \<lparr>response_data = r\<rparr>"
  shows
    "invalidated (snd (snd (useHistoryMutations_createHistory nc base (Some u) token json (m, w))))
       = invalidated w
         @ (if success r
            then [[''starter'', ''histories'', u], [''starter'', ''histories'', ''total'']]
            else [])
   \<and> invalidated (snd (snd (useHistoryMutations_updateHistory nc base (Some u) token historyId
                              json (m, w))))
       = invalidated w
         @ (if success r
            then [[''starter'', ''histories'', u], [''starter'', ''histories'', ''total'']]
            else [])
   \<and> invalidated (snd (snd (useHistoryMutations_deleteHistory nc base (Some u) token historyId
                              (m, w))))
       = invalidated w
         @ (if success r
            then [[''starter'', ''histories'', u], [''starter'', ''histories'', ''total'']]
            else [])"
  using assms(1)
    createHistory_mutation_resolved(3) [OF assms(2)]
    updateHistory_mutation_resolved(3) [OF assms(3)]
    deleteHistory_mutation_resolved(3) [OF assms(4)]
  by (simp add: invalidated_onSuccess)

text \<open>C4, amended, at the mocked transport and the user of the client's test.\<close>

theorem mutations_invalidate_witness:
  "invalidated (snd (snd (useHistoryMutations_createHistory
      (createMockNetworkClient \<lparr>success = True, data = None, error = None\<rparr>
         :: (call list, unit, unit BaseResponse) NetworkClient)
      ''https://api.example.com'' (Some ''user-123'') (Some ''token'') ''{}''
      (no_errors, initial_world [] :: (call list, unit) World)))) =
     [[''starter'', ''histories'', ''user-123''], [''starter'', ''histories'', ''total'']]"
  using mutations_invalidate
    [where nc = "createMockNetworkClient \<lparr>success = True, data = None, error = None\<rparr>
                   :: (call list, unit, unit BaseResponse) NetworkClient"
       and r = "\<lparr>success = True, data = None, error = None\<rparr>"
       and w = "initial_world [] :: (call list, unit) World"
       and u = "''user-123''" and base = "''https://api.example.com''"
       and token = "Some ''token''" and json = "''{}''" and m = no_errors]
  by (simp add: initial_world_def)

text \<open>
  C10: when \<open>userId\<close> is \<open>null\<close>, a mutation whose envelope has \<open>success: true\<close> makes
  one call to \<open>invalidateQueries\<close>, with the total key, and none with a user's list key.
  Whatever \<open>userId\<close> is, the call with the total key is made, once and last.
\<close>

theorem null_user_invalidates_total:
  fixes nc :: "('s, 'x, 'a BaseResponse) NetworkClient" and w :: "('s, 'd) World"
  assumes "success r"
    and "\<forall>url opts. fst (post nc url opts (network w)) = Inr \<lparr>response_data = r\<rparr>"
    and "\<forall>url opts. fst (put nc url opts (network w)) = Inr \<lparr>response_data = r\<rparr>"
    and "\<forall>url opts. fst (delete nc url opts (network w)) = Inr \<lparr>response_data = r\<rparr>"
  shows
    "invalidated (snd (snd (useHistoryMutations_createHistory nc base None token json (m, w))))
       = invalidated w @ [[''starter'', ''histories'', ''total'']]
   \<and> invalidated (snd (snd (useHistoryMutations_updateHistory nc base None token historyId
                              json (m, w))))
       = invalidated w @ [[''starter'', ''histories'', ''total'']]
   \<and> invalidated (snd (snd (useHistoryMutations_deleteHistory nc base None token historyId
                              (m, w))))
       = invalidated w @ [[''starter'', ''histories'', ''total'']]
   \<and> invalidated (snd (snd (useHistoryMutations_createHistory nc base userId token json (m, w))))
       = invalidated w
         @ (case userId of None \<Rightarrow> []
            | Some u \<Rightarrow> if u = [] then [] else [[''starter'', ''histories'', u]])
         @ [[''starter'', ''histories'', ''total'']]
   \<and> invalidated (snd (snd (useHistoryMutations_updateHistory nc base userId token historyId
                              json (m, w))))
       = invalidated w
         @ (case userId of None \<Rightarrow> []
            | Some u \<Rightarrow> if u = [] then [] else [[''starter'', ''histories'', u]])
         @ [[''starter'', ''histories'', ''total'']]
   \<and> invalidated (snd (snd (useHistoryMutations_deleteHistory nc base userId token historyId
                              (m, w))))
       = invalidated w
         @ (case userId of None \<Rightarrow> []
            | Some u \<Rightarrow> if u = [] then [] else [[''starter'', ''histories'', u]])
         @ [[''starter'', ''histories'', ''total'']]"
  using assms(1)
    createHistory_mutation_resolved(3) [OF assms(2)]
    updateHistory_mutation_resolved(3) [OF assms(3)]
    deleteHistory_mutation_resolved(3) [OF assms(4)]
  by (simp add: invalidated_onSuccess)

text \<open>C10 at the mocked transport, with neither user nor token.\<close>

theorem null_user_invalidates_total_witness:
  "invalidated (snd (snd (useHistoryMutations_deleteHistory
      (createMockNetworkClient \<lparr>success = True, data = None, error = None\<rparr>
         :: (call list, unit, unit BaseResponse) NetworkClient)
      ''https://api.example.com'' None None ''hist-456''
      (no_errors, initial_world [] :: (call list, unit) World)))) =
     [[''starter'', ''histories'', ''total'']]"
  using null_user_invalidates_total
    [where nc = "createMockNetworkClient \<lparr>success = True, data = None, error = None\<rparr>
                   :: (call list, unit, unit BaseResponse) NetworkClient"
       and r = "\<lparr>success = True, data = None, error = None\<rparr>"
       and w = "initial_world [] :: (call list, unit) World"
       and base = "''https://api.example.com''"
       and token = None and historyId = "''hist-456''" and m = no_errors]
  by (simp add: initial_world_def)

section \<open>Enabling the list query\<close>

text \<open>
  C6, as the spec states it: when \<open>userId\<close> and \<open>token\<close> are non-null and \<open>enabled\<close> is
  not false, the list query is enabled. With the empty string for \<open>userId\<close>, which is not
  \<open>null\<close>, the query is disabled and the transport receives no call.
\<close>

theorem empty_identity_counterexample:
  "Some [] \<noteq> (None :: string option)
   \<and> \<not> useHistories_enabled None (Some []) (Some ''token'')
   \<and> network (snd (useHistories
        (createMockNetworkClient \<lparr>success = True, data = Some [], error = None\<rparr>
           :: (call list, unit, unit list BaseResponse) NetworkClient)
        ''https://api.example.com'' (Some []) (Some ''token'') None (initial_world []))) = []"
  by (simp add: useHistories_def useHistories_enabled_def enabled_or_true_def truthy_def
        useQuery_def initial_world_def Let_def)

text \<open>
  C6, amended: the list query is enabled exactly when the caller's \<open>enabled\<close> option is
  not false and \<open>userId\<close> and \<open>token\<close> are both non-null and non-empty. Whenever
  \<open>userId\<close> is \<open>null\<close>, \<open>token\<close> is \<open>null\<close> or \<open>enabled\<close> is false it is disabled. A
  disabled query issues no request and changes nothing: the hook returns its defaults.
  An enabled query makes a \<open>GET\<close> call to the transport.
\<close>

theorem useHistories_enabled_exactly:
  fixes nc :: "('s, 'x, 'h list BaseResponse) NetworkClient"
    and w :: "('s, 'h list) World" and ws :: "(call list \<times> 's, 'h list) World"
  shows
    "(useHistories_enabled options userId token \<longleftrightarrow>
        (options = None \<or> (\<exists>opts. options = Some opts \<and> HookOptions.enabled opts \<noteq> Some False))
        \<and> (\<exists>u. userId = Some u \<and> u \<noteq> [])
        \<and> (\<exists>t. token = Some t \<and> t \<noteq> []))
   \<and> (userId = None \<or> token = None
        \<or> (\<exists>opts. options = Some opts \<and> HookOptions.enabled opts = Some False)
      \<longrightarrow> \<not> useHistories_enabled options userId token)
   \<and> (\<not> useHistories_enabled options userId token \<longrightarrow>
        useHistories nc base userId token options w
          = (\<lparr>histories = [], isLoading = False, error = None\<rparr>, w))
   \<and> (useHistories_enabled options userId token \<longrightarrow>
        (\<exists>url opts more.
           fst (network (snd (useHistories (spy nc) base userId token options ws)))
             = fst (network ws) @ (GET, url, opts) # more))"
proof -
  have "\<exists>url opts more.
           fst (network (snd (useHistories (spy nc) base userId token options ws)))
             = fst (network ws) @ (GET, url, opts) # more"
    if "useHistories_enabled options userId token"
    using useHistories_enabled_spied [OF that, of ws "fst (network ws)" "snd (network ws)" nc base]
    by auto
  moreover have "\<not> useHistories_enabled options userId token"
    if "userId = None \<or> token = None
        \<or> (\<exists>opts. options = Some opts \<and> HookOptions.enabled opts = Some False)"
    using that by (auto simp: useHistories_enabled_iff)
  ultimately show ?thesis
    using useHistories_enabled_iff [of options userId token]
      useHistories_disabled [of options userId token nc base w]
    by blast
qed

text \<open>C6, amended, at an enabled query and at one the caller disabled.\<close>

theorem useHistories_enabled_exactly_witness:
  "useHistories_enabled None (Some ''user-123'') (Some ''token'')
   \<and> \<not> useHistories_enabled (Some \<lparr>enabled = Some False\<rparr>) (Some ''user-123'') (Some ''token'')
   \<and> useHistories
        (createMockNetworkClient \<lparr>success = True, data = Some [], error = None\<rparr>
           :: (call list, unit, unit list BaseResponse) NetworkClient)
        ''https://api.example.com'' (Some ''user-123'') (Some ''token'')
        (Some \<lparr>enabled = Some False\<rparr>) (initial_world [])
      = (\<lparr>histories = [], isLoading = False, error = None\<rparr>, initial_world [])"
  using useHistories_enabled_exactly
      [where options = None and userId = "Some ''user-123''" and token = "Some ''token''"
         and nc = "createMockNetworkClient \<lparr>success = True, data = Some [], error = None\<rparr>
                     :: (call list, unit, unit list BaseResponse) NetworkClient"
         and base = "''https://api.example.com''" and w = "initial_world []"
         and ws = "initial_world ([], [])"]
    useHistories_enabled_exactly
      [where options = "Some \<lparr>enabled = Some False\<rparr>" and userId = "Some ''user-123''"
         and token = "Some ''token''"
         and nc = "createMockNetworkClient \<lparr>success = True, data = Some [], error = None\<rparr>
                     :: (call list, unit, unit list BaseResponse) NetworkClient"
         and base = "''https://api.example.com''" and w = "initial_world []"
         and ws = "initial_world ([], [])"]
  by simp

section \<open>The cache windows\<close>

text \<open>
  C8: for both query hooks (and both copies of the list hook), when the fetch succeeds
  the data is stored under the hook's cache key, \<open>['starter', 'histories', userId]\<close> or
  \<open>['starter', 'histories', 'total']\<close>, with a staleness window of \<open>5 * 60 * 1000\<close> ms and
  a garbage-collection window of \<open>30 * 60 * 1000\<close> ms.
\<close>

theorem fetched_data_cached:
  fixes nc1 :: "('s1, 'x1, 'h list BaseResponse) NetworkClient"
    and nc2 :: "('s2, 'x2, HistoryTotalResponse BaseResponse) NetworkClient"
  assumes "\<forall>url opts s. fst (get nc1 url opts s) = Inr \<lparr>response_data = r1\<rparr>"
    and "success r1" and "BaseResponse.data r1 = Some d1"
    and "useHistories_enabled options1 (Some u) token"
    and "\<forall>url opts s. fst (get nc2 url opts s) = Inr \<lparr>response_data = r2\<rparr>"
    and "success r2" and "BaseResponse.data r2 = Some d2"
    and "enabled_or_true options2"
  shows
    "cache (snd (useHistories nc1 base1 (Some u) token options1 w1))
       [''starter'', ''histories'', u]
       = Some \<lparr>entry_data = d1, entry_staleTime = 5 * 60 * 1000,
               entry_gcTime = 30 * 60 * 1000\<rparr>
   \<and> cache (snd (useHistories_defaults nc1 base1 (Some u) token options1 w1))
       [''starter'', ''histories'', u]
       = Some \<lparr>entry_data = d1, entry_staleTime = 5 * 60 * 1000,
               entry_gcTime = 30 * 60 * 1000\<rparr>
   \<and> histories (fst (useHistories nc1 base1 (Some u) token options1 w1)) = d1
   \<and> cache (snd (useHistoriesTotal nc2 base2 options2 w2))
       [''starter'', ''histories'', ''total'']
       = Some \<lparr>entry_data = d2, entry_staleTime = 5 * 60 * 1000,
               entry_gcTime = 30 * 60 * 1000\<rparr>
   \<and> UseHistoriesTotalReturn.total (fst (useHistoriesTotal nc2 base2 options2 w2))
       = HistoryTotalResponse.total d2"
  using useHistories_success [OF assms(1-4), of base1 w1]
    useHistoriesTotal_success [OF assms(5-8), of base2 w2]
  by (simp add: useHistories_copies_agree QUERY_KEYS_histories_def
        QUERY_KEYS_historiesTotal_def)

text \<open>C8 at mocked transports: two histories for the user, a total of 42.\<close>

theorem fetched_data_cached_witness:
  "cache (snd (useHistories
      (createMockNetworkClient \<lparr>success = True, data = Some [(), ()], error = None\<rparr>
         :: (call list, unit, unit list BaseResponse) NetworkClient)
      ''https://api.example.com'' (Some ''user-123'') (Some ''token'') None
      (initial_world []))) [''starter'', ''histories'', ''user-123'']
     = Some \<lparr>entry_data = [(), ()], entry_staleTime = 300000, entry_gcTime = 1800000\<rparr>
   \<and> cache (snd (useHistoriesTotal
      (createMockNetworkClient \<lparr>success = True, data = Some \<lparr>HistoryTotalResponse.total = 42\<rparr>, error = None\<rparr>
         :: (call list, unit, HistoryTotalResponse BaseResponse) NetworkClient)
      ''https://api.example.com'' None (initial_world [])))
      [''starter'', ''histories'', ''total'']
     = Some \<lparr>entry_data = \<lparr>HistoryTotalResponse.total = 42\<rparr>, entry_staleTime = 300000,
             entry_gcTime = 1800000\<rparr>"
  using fetched_data_cached
    [where ?nc1.0 = "createMockNetworkClient \<lparr>success = True, data = Some [(), ()], error = None\<rparr>
               :: (call list, unit, unit list BaseResponse) NetworkClient"
       and ?r1.0 = "\<lparr>success = True, data = Some [(), ()], error = None\<rparr>"
       and ?d1.0 = "[(), ()]" and u = "''user-123''" and token = "Some ''token''"
       and ?options1.0 = None and ?base1.0 = "''https://api.example.com''"
       and ?w1.0 = "initial_world []"
       and ?nc2.0 = "createMockNetworkClient
                       \<lparr>success = True, data = Some \<lparr>HistoryTotalResponse.total = 42\<rparr>, error = None\<rparr>
               :: (call list, unit, HistoryTotalResponse BaseResponse) NetworkClient"
       and ?r2.0 = "\<lparr>success = True, data = Some \<lparr>HistoryTotalResponse.total = 42\<rparr>, error = None\<rparr>"
       and ?d2.0 = "\<lparr>HistoryTotalResponse.total = 42\<rparr>" and ?options2.0 = None
       and ?base2.0 = "''https://api.example.com''" and ?w2.0 = "initial_world []"]
  by (simp add: useHistories_enabled_def enabled_or_true_def truthy_def)

end
